theory Spec2Isabelle
  imports Main "HOL-Library.Char_ord" "HOL-Library.List_Lexorder"
begin

section \<open>Python values used by d20potz.py\<close>

text \<open>
  Text is a list of characters, one \<^typ>\<open>char\<close> per code point, for the code points
  0..255 (ASCII and Latin-1). On this alphabet the functions below are the Python
  built-ins the bot calls. The order on strings is the lexicographic order on code
  points, which is also the byte order of their UTF-8 encodings (the order LevelDB
  compares keys by), so \<open>.encode("utf-8")\<close> and \<open>.decode("utf-8")\<close> are left implicit.
\<close>

datatype py_error = IndexError | KeyError | ValueError | ZeroDivisionError

text \<open>\<open>str.isspace\<close> for one character: tab..carriage return, the separators
  0x1c..0x1f, space, NEL (0x85) and the no-break space (0xa0).\<close>

definition is_space :: "char \<Rightarrow> bool" where
  "is_space c = (let n = (of_char c :: nat) in
     (9 \<le> n \<and> n \<le> 13) \<or> (28 \<le> n \<and> n \<le> 32) \<or> n = 133 \<or> n = 160)"

text \<open>\<open>s.split()\<close>: the maximal runs of non-whitespace characters, in order.
  \<open>split_acc cur s\<close> scans \<open>s\<close> with the token read so far in \<open>cur\<close>.\<close>

fun split_acc :: "string \<Rightarrow> string \<Rightarrow> string list" where
  "split_acc cur [] = (if cur = [] then [] else [cur])"
| "split_acc cur (c # cs) =
     (if is_space c then (if cur = [] then split_acc [] cs else cur # split_acc [] cs)
      else split_acc (cur @ [c]) cs)"

definition split :: "string \<Rightarrow> string list" where
  "split s = split_acc [] s"

text \<open>\<open>sep.join(xs)\<close>.\<close>

fun join :: "string \<Rightarrow> string list \<Rightarrow> string" where
  "join sep [] = []"
| "join sep [x] = x"
| "join sep (x # y # ys) = x @ sep @ join sep (y # ys)"

text \<open>\<open>s.lower()\<close>: A..Z and the Latin-1 capitals 0xc0..0xde (but the multiplication
  sign 0xd7) move up by 32.\<close>

definition lower_char :: "char \<Rightarrow> char" where
  "lower_char c = (let n = (of_char c :: nat) in
     if (65 \<le> n \<and> n \<le> 90) \<or> (192 \<le> n \<and> n \<le> 222 \<and> n \<noteq> 215)
     then char_of (n + 32) else c)"

definition lower :: "string \<Rightarrow> string" where
  "lower s = map lower_char s"

text \<open>\<open>sub in s\<close> on strings: \<open>sub\<close> occurs in \<open>s\<close> as a contiguous run.\<close>

fun contains :: "string \<Rightarrow> string \<Rightarrow> bool" where
  "contains sub [] = (sub = [])"
| "contains sub (c # cs) = (take (length sub) (c # cs) = sub \<or> contains sub cs)"

text \<open>\<open>s.removeprefix(p)\<close>.\<close>

definition removeprefix :: "string \<Rightarrow> string \<Rightarrow> string" where
  "removeprefix p s = (if take (length p) s = p then drop (length p) s else s)"

text \<open>\<open>xs[i]\<close> for a Python integer \<open>i\<close>: a negative index counts from the end, and
  an index outside the list raises IndexError.\<close>

definition subscript :: "'a list \<Rightarrow> int \<Rightarrow> py_error + 'a" where
  "subscript xs i =
     (if 0 \<le> i \<and> i < int (length xs) then Inr (xs ! nat i)
      else if i < 0 \<and> - int (length xs) \<le> i then Inr (xs ! nat (int (length xs) + i))
      else Inl IndexError)"

text \<open>\<open>a % b\<close> on integers: the remainder has the sign of the divisor, as HOL's
  \<open>mod\<close> on \<^typ>\<open>int\<close>; a zero divisor raises.\<close>

definition py_mod :: "int \<Rightarrow> int \<Rightarrow> py_error + int" where
  "py_mod a b = (if b = 0 then Inl ZeroDivisionError else Inr (a mod b))"

subsection \<open>Integers and their decimal text\<close>

definition digit_char :: "nat \<Rightarrow> char" where
  "digit_char d = char_of (48 + d)"

definition is_digit :: "char \<Rightarrow> bool" where
  "is_digit c = (48 \<le> (of_char c :: nat) \<and> (of_char c :: nat) \<le> 57)"

definition digit_val :: "char \<Rightarrow> nat" where
  "digit_val c = of_char c - 48"

fun digits :: "nat \<Rightarrow> string" where
  "digits n = (if n < 10 then [digit_char n] else digits (n div 10) @ [digit_char (n mod 10)])"

declare digits.simps [simp del]

text \<open>\<open>str(n)\<close> for an integer.\<close>

definition str_int :: "int \<Rightarrow> string" where
  "str_int n = (if n < 0 then CHR ''-'' # digits (nat (- n)) else digits (nat n))"

text \<open>The values the bot passes to \<open>str()\<close> are integers (from \<open>int(...)\<close>) and, in
  \<open>setDefaultHps\<close>, the strings of the configuration file.\<close>

datatype pyval = PyInt int | PyStr string

fun str :: "pyval \<Rightarrow> string" where
  "str (PyInt n) = str_int n"
| "str (PyStr s) = s"

text \<open>The padding \<open>int(s)\<close> drops at both ends of \<open>s\<close>: tab..carriage return and space,
  and of the characters above ASCII the whitespace ones, NEL (0x85) and the no-break
  space (0xa0). The separators 0x1c..0x1f are not padding for \<open>int\<close>.\<close>

definition is_int_padding :: "char \<Rightarrow> bool" where
  "is_int_padding c = (let n = (of_char c :: nat) in
     (9 \<le> n \<and> n \<le> 13) \<or> n = 32 \<or> n = 133 \<or> n = 160)"

definition strip :: "string \<Rightarrow> string" where
  "strip s = rev (dropWhile is_int_padding (rev (dropWhile is_int_padding s)))"

text \<open>The digit part of an integer literal: decimal digits, where one underscore may
  stand between two digits.\<close>

fun digit_group :: "string \<Rightarrow> bool" where
  "digit_group [] = False"
| "digit_group [c] = is_digit c"
| "digit_group (c # d # r) =
     (is_digit c \<and> (if d = CHR ''_'' then digit_group r else digit_group (d # r)))"

definition digits_val :: "string \<Rightarrow> nat" where
  "digits_val ds = foldl (\<lambda>acc c. 10 * acc + digit_val c) 0 ds"

text \<open>\<open>int(s)\<close> for a string: surrounding padding, one optional sign, a digit part;
  anything else raises ValueError. Integers are unbounded, as in the language; the
  interpreter's configurable limit on the number of digits is not modelled.\<close>

definition py_int :: "string \<Rightarrow> py_error + int" where
  "py_int s =
     (let t = strip s;
          neg = (t \<noteq> [] \<and> hd t = CHR ''-'');
          ds = (if t \<noteq> [] \<and> (hd t = CHR ''-'' \<or> hd t = CHR ''+'') then tl t else t)
      in if digit_group ds
         then Inr ((if neg then - 1 else 1) * int (digits_val (filter (\<lambda>c. c \<noteq> CHR ''_'') ds)))
         else Inl ValueError)"

section \<open>The key-value store\<close>

text \<open>
  LevelDB (an external library) holds byte-string keys with byte-string values, ordered
  by key. The store is the list of its entries in key order. \<open>Get\<close> of an absent key
  raises KeyError, \<open>Put\<close> overwrites, \<open>Delete\<close> of an absent key does nothing, and
  \<open>RangeIter\<close> yields the entries whose keys lie between the two bounds (both
  included), in key order.
\<close>

type_synonym leveldb = "(string \<times> string) list"

definition Get :: "leveldb \<Rightarrow> string \<Rightarrow> py_error + string" where
  "Get db k = (case map_of db k of None \<Rightarrow> Inl KeyError | Some v \<Rightarrow> Inr v)"

definition Delete :: "string \<Rightarrow> leveldb \<Rightarrow> leveldb" where
  "Delete k db = filter (\<lambda>kv. fst kv \<noteq> k) db"

definition Put :: "string \<Rightarrow> string \<Rightarrow> leveldb \<Rightarrow> leveldb" where
  "Put k v db = insort_key fst (k, v) (Delete k db)"

definition RangeIter :: "string \<Rightarrow> string \<Rightarrow> leveldb \<Rightarrow> (string \<times> string) list" where
  "RangeIter key_from key_to db = filter (\<lambda>kv. key_from \<le> fst kv \<and> fst kv \<le> key_to) db"

section \<open>Configuration and card catalog\<close>

text \<open>
  \<open>CONFIG\<close> and \<open>CARDS\<close> are read once at start-up (from the configuration file and
  the card directory) and only read afterwards, so the functions below take them as a
  parameter. \<open>CARDS\<close> is a dictionary from a player's directory name to the card
  identifiers found there, in directory-listing order.
\<close>

record config =
  cards_dir :: string
  spelling :: "(string \<times> string) list"
  order :: string
  hp_defaults :: "(string \<times> string) list"

record env =
  CONFIG :: config
  CARDS :: "string \<rightharpoonup> string list"

section \<open>Game state over the store\<close>

definition current_player_id_key :: "int \<Rightarrow> string" where
  "current_player_id_key chat_id = ''current_player_'' @ str_int chat_id"

definition player_list_key :: "int \<Rightarrow> string" where
  "player_list_key chat_id = ''player_list_'' @ str_int chat_id"

definition player_hp_key :: "int \<Rightarrow> string \<Rightarrow> string" where
  "player_hp_key chat_id player_name =
     ''player_hp_'' @ str_int chat_id @ ''_'' @ lower player_name"

definition player_max_hp_key :: "int \<Rightarrow> string \<Rightarrow> string" where
  "player_max_hp_key chat_id player_name =
     ''player_max_hp_'' @ str_int chat_id @ ''_'' @ lower player_name"

definition key_prefix :: "int \<Rightarrow> string \<Rightarrow> string" where
  "key_prefix chat_id player_id = ''card_status_'' @ str_int chat_id @ ''_'' @ player_id @ ''_''"

definition card_key :: "int \<Rightarrow> string \<Rightarrow> string \<Rightarrow> string" where
  "card_key chat_id player_id card_id =
     ''card_status_'' @ str_int chat_id @ ''_'' @ player_id @ ''_'' @ card_id"

definition getCurrentPlayerId :: "int \<Rightarrow> leveldb \<Rightarrow> py_error + int" where
  "getCurrentPlayerId chat_id db =
     (case Get db (current_player_id_key chat_id) of
        Inl e \<Rightarrow> Inl e
      | Inr current_player_id \<Rightarrow> py_int current_player_id)"

text \<open>The expression \<open>DB.Get(player_list_key).decode("utf-8").split()\<close> of
  \<open>getPlayerById\<close> and \<open>getNextPlayerId\<close>: the stored player order, read back.\<close>

definition player_list_of :: "int \<Rightarrow> leveldb \<Rightarrow> py_error + string list" where
  "player_list_of chat_id db =
     (case Get db (player_list_key chat_id) of
        Inl e \<Rightarrow> Inl e
      | Inr v \<Rightarrow> Inr (split v))"

definition getPlayerById :: "int \<Rightarrow> int \<Rightarrow> leveldb \<Rightarrow> py_error + string" where
  "getPlayerById chat_id player_id db =
     (case player_list_of chat_id db of
        Inl e \<Rightarrow> Inl e
      | Inr player_list \<Rightarrow> subscript player_list player_id)"

definition getNextPlayerId :: "int \<Rightarrow> leveldb \<Rightarrow> py_error + int" where
  "getNextPlayerId chat_id db =
     (case player_list_of chat_id db of
        Inl e \<Rightarrow> Inl e
      | Inr player_list \<Rightarrow>
          (case getCurrentPlayerId chat_id db of
             Inl e \<Rightarrow> Inl e
           | Inr current_player_id \<Rightarrow>
               py_mod (current_player_id + 1) (int (length player_list))))"

definition setCurrentPlayerId :: "int \<Rightarrow> int \<Rightarrow> leveldb \<Rightarrow> leveldb" where
  "setCurrentPlayerId chat_id player_id db =
     Put (current_player_id_key chat_id) (str_int player_id) db"

definition getPlayerHp :: "int \<Rightarrow> string \<Rightarrow> leveldb \<Rightarrow> py_error + int" where
  "getPlayerHp chat_id player_name db =
     (case Get db (player_hp_key chat_id player_name) of
        Inl e \<Rightarrow> Inl e
      | Inr player_hp \<Rightarrow> py_int player_hp)"

definition getPlayerMaxHp :: "int \<Rightarrow> string \<Rightarrow> leveldb \<Rightarrow> py_error + int" where
  "getPlayerMaxHp chat_id player_name db =
     (case Get db (player_max_hp_key chat_id player_name) of
        Inl e \<Rightarrow> Inl e
      | Inr player_max_hp \<Rightarrow> py_int player_max_hp)"

definition setPlayerHp :: "int \<Rightarrow> string \<Rightarrow> pyval \<Rightarrow> leveldb \<Rightarrow> leveldb" where
  "setPlayerHp chat_id player_name hp db = Put (player_hp_key chat_id player_name) (str hp) db"

definition setPlayerMaxHp :: "int \<Rightarrow> string \<Rightarrow> pyval \<Rightarrow> leveldb \<Rightarrow> leveldb" where
  "setPlayerMaxHp chat_id player_name max_hp db =
     Put (player_max_hp_key chat_id player_name) (str max_hp) db"

fun lookup_spelling :: "(string \<times> string) list \<Rightarrow> string \<Rightarrow> string" where
  "lookup_spelling [] hero_name = hero_name"
| "lookup_spelling ((hero, sp) # rest) hero_name =
     (if hero = hero_name then sp else lookup_spelling rest hero_name)"

definition getSpelling :: "config \<Rightarrow> string \<Rightarrow> string" where
  "getSpelling cfg hero_name = lookup_spelling (spelling cfg) (lower hero_name)"

definition setPlayerOrder :: "int \<Rightarrow> string list \<Rightarrow> leveldb \<Rightarrow> leveldb" where
  "setPlayerOrder chat_id player_list db =
     setCurrentPlayerId chat_id 0 (Put (player_list_key chat_id) (join '' '' player_list) db)"

definition setDefaultPlayerOrder :: "config \<Rightarrow> int \<Rightarrow> leveldb \<Rightarrow> leveldb" where
  "setDefaultPlayerOrder cfg chat_id db = setPlayerOrder chat_id (split (lower (order cfg))) db"

fun setDefaultHps_loop :: "int \<Rightarrow> (string \<times> string) list \<Rightarrow> leveldb \<Rightarrow> leveldb" where
  "setDefaultHps_loop chat_id [] db = db"
| "setDefaultHps_loop chat_id ((player_name, hp) # rest) db =
     setDefaultHps_loop chat_id rest
       (setPlayerMaxHp chat_id (lower player_name) (PyStr hp)
         (setPlayerHp chat_id (lower player_name) (PyStr hp) db))"

definition setDefaultHps :: "config \<Rightarrow> int \<Rightarrow> leveldb \<Rightarrow> leveldb" where
  "setDefaultHps cfg chat_id db = setDefaultHps_loop chat_id (hp_defaults cfg) db"

definition setPlayerCardStatus :: "int \<Rightarrow> string \<Rightarrow> string \<Rightarrow> bool \<Rightarrow> leveldb \<Rightarrow> leveldb" where
  "setPlayerCardStatus chat_id player_id card_id flipped db =
     Put (card_key chat_id player_id card_id) (if flipped then ''1'' else ''0'') db"

definition removePlayerCardStatus :: "int \<Rightarrow> string \<Rightarrow> string \<Rightarrow> leveldb \<Rightarrow> leveldb" where
  "removePlayerCardStatus chat_id player_id card_id db =
     Delete (card_key chat_id player_id card_id) db"

text \<open>The generator \<open>getPlayerCards\<close>, as the list it yields. \<open>flipped\<close> is \<open>None\<close>,
  \<open>True\<close> or \<open>False\<close>. The upper bound of the scan is the prefix followed by the
  string literal \<open>"\255"\<close>: an octal escape, the one character 0o255 = 0xad.\<close>

definition getPlayerCards :: "int \<Rightarrow> string \<Rightarrow> bool option \<Rightarrow> leveldb \<Rightarrow> string list" where
  "getPlayerCards chat_id player_id flipped db =
     map (\<lambda>kv. removeprefix (key_prefix chat_id player_id) (fst kv))
       (filter (\<lambda>kv. flipped = None \<or> (flipped = Some True \<and> snd kv = ''1'')
                      \<or> (flipped = Some False \<and> snd kv = ''0''))
         (RangeIter (key_prefix chat_id player_id)
            (key_prefix chat_id player_id @ [CHR 0xAD]) db))"

section \<open>Command handlers\<close>

text \<open>
  A handler reads and writes the store and sends replies through the chat transport.
  The world is the store together with the replies sent so far, oldest first. A
  reply built with \<open>"...".format(...)\<close> is recorded as its template and its arguments;
  a media group is recorded as the paths of the photos it opens. A handler either
  returns or raises; what it wrote and sent before raising stays.
\<close>

datatype fmt_arg = ArgStr string | ArgInt int | ArgList "string list"

datatype action =
    send_message int string "fmt_arg list"
  | send_media_group int "string list"

record world =
  DB :: leveldb
  sent :: "action list"

datatype outcome = Returned | Raised py_error

definition reply :: "int \<Rightarrow> string \<Rightarrow> fmt_arg list \<Rightarrow> world \<Rightarrow> world" where
  "reply chat_id template args w = w\<lparr>sent := sent w @ [send_message chat_id template args]\<rparr>"

text \<open>\<open>os.path.join(a, *ps)\<close> on a POSIX system: a component that starts with \<open>/\<close>
  replaces the path so far; otherwise it is appended, after a \<open>/\<close> unless the path so
  far is empty or ends in one.\<close>

definition path_add :: "string \<Rightarrow> string \<Rightarrow> string" where
  "path_add path b =
     (if take 1 b = ''/'' then b
      else if path = [] \<or> last path = CHR ''/'' then path @ b
      else path @ ''/'' @ b)"

definition os_path_join :: "string \<Rightarrow> string list \<Rightarrow> string" where
  "os_path_join a ps = foldl path_add a ps"

definition send_cards :: "config \<Rightarrow> string \<Rightarrow> string list \<Rightarrow> int \<Rightarrow> world \<Rightarrow> world" where
  "send_cards cfg player cards chat_id w =
     w\<lparr>sent := sent w @
       [send_media_group chat_id
          (map (\<lambda>playerCard. os_path_join (cards_dir cfg) [lower player, playerCard @ ''.jpg''])
             cards)]\<rparr>"

definition setDefaults :: "config \<Rightarrow> int \<Rightarrow> world \<Rightarrow> outcome \<times> world" where
  "setDefaults cfg chat_id w =
     (Returned,
      reply chat_id ''Defaults set.'' []
        (w\<lparr>DB := setDefaultHps cfg chat_id (setDefaultPlayerOrder cfg chat_id (DB w))\<rparr>))"

definition endTurn :: "config \<Rightarrow> int \<Rightarrow> world \<Rightarrow> outcome \<times> world" where
  "endTurn cfg chat_id w =
     (case getCurrentPlayerId chat_id (DB w) of
        Inl e \<Rightarrow> (Raised e, w)
      | Inr current_player_id \<Rightarrow>
     (case getPlayerById chat_id current_player_id (DB w) of
        Inl e \<Rightarrow> (Raised e, w)
      | Inr current_player \<Rightarrow>
     (case getNextPlayerId chat_id (DB w) of
        Inl e \<Rightarrow> (Raised e, w)
      | Inr nextPlayerId \<Rightarrow>
     (let w1 = w\<lparr>DB := setCurrentPlayerId chat_id nextPlayerId (DB w)\<rparr> in
      case getPlayerById chat_id nextPlayerId (DB w1) of
        Inl e \<Rightarrow> (Raised e, w1)
      | Inr nextPlayer \<Rightarrow>
          (Returned,
           reply chat_id ''{}'s turn ended. It is now {}'s turn.''
             [ArgStr (getSpelling cfg current_player), ArgStr (getSpelling cfg nextPlayer)]
             w1)))))"

definition setPlayerList :: "int \<Rightarrow> string \<Rightarrow> world \<Rightarrow> outcome \<times> world" where
  "setPlayerList chat_id text w =
     (Returned,
      reply chat_id ''Player list set.'' []
        (w\<lparr>DB := setPlayerOrder chat_id (drop 1 (split (lower text))) (DB w)\<rparr>))"

definition getCurrentPlayer :: "config \<Rightarrow> int \<Rightarrow> world \<Rightarrow> outcome \<times> world" where
  "getCurrentPlayer cfg chat_id w =
     (case getCurrentPlayerId chat_id (DB w) of
        Inl e \<Rightarrow> (Raised e, w)
      | Inr current_player_id \<Rightarrow>
     (case getPlayerById chat_id current_player_id (DB w) of
        Inl e \<Rightarrow> (Raised e, w)
      | Inr current_player \<Rightarrow>
          (Returned,
           reply chat_id ''It is {}'s turn.'' [ArgStr (getSpelling cfg current_player)] w)))"

text \<open>\<open>int(params[3])\<close>: the subscript may raise IndexError, the conversion ValueError.\<close>

definition int_param3 :: "string list \<Rightarrow> py_error + int" where
  "int_param3 params =
     (case subscript params 3 of Inl e \<Rightarrow> Inl e | Inr a \<Rightarrow> py_int a)"

definition hpCommand :: "config \<Rightarrow> int \<Rightarrow> string \<Rightarrow> world \<Rightarrow> outcome \<times> world" where
  "hpCommand cfg chat_id text w =
     (let params = split text in
      case subscript params 1 of
        Inl e \<Rightarrow> (Raised e, w)
      | Inr player_name \<Rightarrow>
     (let player_list = split (lower (order cfg)) in
      if player_name \<notin> set player_list
      then (Returned,
            reply chat_id ''{} is not one of {}'' [ArgStr player_name, ArgList player_list] w)
      else
     (case (if length params = 2 then Inr ''get'' else subscript params 2) of
        Inl e \<Rightarrow> (Raised e, w)
      | Inr subcommand \<Rightarrow>
      if subcommand = ''get'' then
        (case getPlayerHp chat_id player_name (DB w) of
           Inl e \<Rightarrow>
             (Returned, reply chat_id ''{} does not have hp set.'' [ArgStr player_name] w)
         | Inr hp \<Rightarrow>
             (Returned,
              reply chat_id ''{} has {} HP.'' [ArgStr (getSpelling cfg player_name), ArgInt hp] w))
      else if subcommand = ''set'' \<or> subcommand = ''='' then
        (case int_param3 params of
           Inl e \<Rightarrow> (Raised e, w)
         | Inr hp \<Rightarrow>
             (Returned,
              reply chat_id ''{}'s HP set to {}.'' [ArgStr (getSpelling cfg player_name), ArgInt hp]
                (w\<lparr>DB := setPlayerMaxHp chat_id player_name (PyInt hp)
                           (setPlayerHp chat_id player_name (PyInt hp) (DB w))\<rparr>)))
      else if subcommand = ''add'' \<or> subcommand = ''+'' then
        (case int_param3 params of
           Inl e \<Rightarrow> (Raised e, w)
         | Inr hp \<Rightarrow>
        (case getPlayerMaxHp chat_id player_name (DB w) of
           Inl e \<Rightarrow>
             (Returned, reply chat_id ''{} does not have hp set.'' [ArgStr player_name] w)
         | Inr max_hp \<Rightarrow>
        (case getPlayerHp chat_id player_name (DB w) of
           Inl e \<Rightarrow> (Raised e, w)
         | Inr cur \<Rightarrow>
             (let newHp = min (cur + hp) max_hp in
              (Returned,
               reply chat_id ''{}'s HP set to {}.''
                 [ArgStr (getSpelling cfg player_name), ArgInt newHp]
                 (w\<lparr>DB := setPlayerHp chat_id player_name (PyInt newHp) (DB w)\<rparr>))))))
      else if subcommand = ''sub'' \<or> subcommand = ''-'' then
        (case int_param3 params of
           Inl e \<Rightarrow> (Raised e, w)
         | Inr hp \<Rightarrow>
        (case getPlayerHp chat_id player_name (DB w) of
           Inl e \<Rightarrow>
             (Returned, reply chat_id ''{} does not have hp set.'' [ArgStr player_name] w)
         | Inr cur \<Rightarrow>
             (let newHp = max (cur - hp) 0 in
              (Returned,
               reply chat_id ''{}'s HP set to {}.''
                 [ArgStr (getSpelling cfg player_name), ArgInt newHp]
                 (w\<lparr>DB := setPlayerHp chat_id player_name (PyInt newHp) (DB w)\<rparr>)))))
      else (Returned, reply chat_id ''Usage: /hp <player> [+|-] <hp>'' [] w))))"

text \<open>\<open>CARDS[player_name]\<close>: a player without a card directory raises KeyError.\<close>

definition cards_of :: "env \<Rightarrow> string \<Rightarrow> py_error + string list" where
  "cards_of ev player_name =
     (case CARDS ev player_name of None \<Rightarrow> Inl KeyError | Some cs \<Rightarrow> Inr cs)"

definition cardsCommand :: "env \<Rightarrow> int \<Rightarrow> string \<Rightarrow> world \<Rightarrow> outcome \<times> world" where
  "cardsCommand ev chat_id text w =
     (let params = split text in
      if length params < 2
      then (Returned, reply chat_id ''Usage: /cards <player> <subcommand>'' [] w)
      else
     (case subscript params 1 of
        Inl e \<Rightarrow> (Raised e, w)
      | Inr player_name \<Rightarrow>
     (let player_list = split (lower (order (CONFIG ev))) in
      if player_name \<notin> set player_list
      then (Returned,
            reply chat_id ''{} is not one of {}'' [ArgStr player_name, ArgList player_list] w)
      else
     (case (if length params = 2 then Inr ''hand'' else subscript params 2) of
        Inl e \<Rightarrow> (Raised e, w)
      | Inr sub_command \<Rightarrow>
      if sub_command = ''all'' then
        (case cards_of ev player_name of
           Inl e \<Rightarrow> (Raised e, w)
         | Inr player_cards \<Rightarrow>
             if player_cards = []
             then (Returned,
                   reply chat_id ''{} has no cards.''
                     [ArgStr (getSpelling (CONFIG ev) player_name)] w)
             else (Returned, send_cards (CONFIG ev) player_name player_cards chat_id w))
      else if sub_command = ''show'' then
        (if length params < 3
         then (Returned, reply chat_id ''Usage: /cards <player> show <card name>'' [] w)
         else
        (case subscript params 3 of
           Inl e \<Rightarrow> (Raised e, w)
         | Inr card_name \<Rightarrow>
        (case cards_of ev player_name of
           Inl e \<Rightarrow> (Raised e, w)
         | Inr catalog \<Rightarrow>
            (let player_cards = filter (contains card_name) catalog in
             if length player_cards = 0
             then (Returned,
                   reply chat_id ''{} Could not find in {}'' [ArgStr card_name, ArgList catalog] w)
             else (Returned, send_cards (CONFIG ev) player_name player_cards chat_id w)))))
      else if sub_command = ''draw'' then
        (if length params < 3
         then (Returned, reply chat_id ''Usage: /cards <player> draw <card name>'' [] w)
         else
        (case subscript params 3 of
           Inl e \<Rightarrow> (Raised e, w)
         | Inr card_name \<Rightarrow>
        (case cards_of ev player_name of
           Inl e \<Rightarrow> (Raised e, w)
         | Inr catalog \<Rightarrow>
            (let player_cards = filter (contains card_name) catalog;
                 w1 = (if length player_cards = 0
                       then reply chat_id ''{} Could not find in {}''
                              [ArgStr card_name, ArgList catalog] w
                       else w)
             in case subscript player_cards 0 of
                  Inl e \<Rightarrow> (Raised e, w1)
                | Inr card_id \<Rightarrow>
                    (Returned,
                     reply chat_id ''{} drew {}'' [ArgStr player_name, ArgStr card_id]
                       (w1\<lparr>DB := setPlayerCardStatus chat_id player_name card_id False (DB w1)\<rparr>))))))
      else if sub_command = ''discard'' then
        (if length params < 3
         then (Returned, reply chat_id ''Usage: /cards <player> flip <card name>'' [] w)
         else
        (case subscript params 3 of
           Inl e \<Rightarrow> (Raised e, w)
         | Inr card_name \<Rightarrow>
            (let all_cards = getPlayerCards chat_id player_name None (DB w);
                 discarded_cards = filter (contains card_name) all_cards
             in if length discarded_cards \<noteq> 1
                then (Returned,
                      reply chat_id ''Could not find {} in {}'s hand {}''
                        [ArgStr card_name, ArgStr player_name, ArgList all_cards] w)
                else
               (case subscript discarded_cards 0 of
                  Inl e \<Rightarrow> (Raised e, w)
                | Inr card_id \<Rightarrow>
                    (Returned,
                     reply chat_id ''{} discarded {}'' [ArgStr player_name, ArgStr card_id]
                       (w\<lparr>DB := removePlayerCardStatus chat_id player_name card_id (DB w)\<rparr>))))))
      else if sub_command = ''hand'' then
        (let active_cards = getPlayerCards chat_id player_name (Some False) (DB w);
             w1 = send_cards (CONFIG ev) player_name active_cards chat_id w;
             flipped_cards = getPlayerCards chat_id player_name (Some True) (DB w1)
         in (Returned,
             reply chat_id ''{}'s flipped cards {}'' [ArgStr player_name, ArgList flipped_cards] w1))
      else if sub_command = ''flip'' then
        (if length params < 3
         then (Returned, reply chat_id ''Usage: /cards <player> flip <card name>'' [] w)
         else
        (case subscript params 3 of
           Inl e \<Rightarrow> (Raised e, w)
         | Inr card_name \<Rightarrow>
            (let not_flipped_cards =
                   filter (contains card_name)
                     (getPlayerCards chat_id player_name (Some False) (DB w));
                 flipped_cards =
                   filter (contains card_name)
                     (getPlayerCards chat_id player_name (Some True) (DB w))
             in if length not_flipped_cards = 0 \<and> length flipped_cards = 0
                then (Returned,
                      reply chat_id ''Could not find {} in {}'s hand {}''
                        [ArgStr card_name, ArgStr player_name,
                         ArgList (getPlayerCards chat_id player_name None (DB w))] w)
                else if length not_flipped_cards > 0
                then
                 (case subscript not_flipped_cards 0 of
                    Inl e \<Rightarrow> (Raised e, w)
                  | Inr card_id \<Rightarrow>
                      (Returned,
                       reply chat_id ''{} flipped {}'' [ArgStr player_name, ArgStr card_id]
                         (w\<lparr>DB := setPlayerCardStatus chat_id player_name card_id True (DB w)\<rparr>)))
                else
                 (case subscript flipped_cards 0 of
                    Inl e \<Rightarrow> (Raised e, w)
                  | Inr card_id \<Rightarrow>
                      (Returned,
                       reply chat_id ''{} unflipped {}'' [ArgStr player_name, ArgStr card_id]
                         (w\<lparr>DB := setPlayerCardStatus chat_id player_name card_id False (DB w)\<rparr>))))))
      else (Returned,
            reply chat_id ''{} is not one of {}''
              [ArgStr sub_command,
               ArgList [''all'', ''show'', ''draw'', ''discard'', ''hand'', ''flip'']] w)))))"

section \<open>The spec's notions of hit points\<close>

text \<open>\<open>clamp(x, lo, hi)\<close> in the spec's words: \<open>x\<close> brought into \<open>[lo, hi]\<close>.\<close>

definition clamp :: "int \<Rightarrow> int \<Rightarrow> int \<Rightarrow> int" where
  "clamp x lo hi = max lo (min x hi)"

text \<open>The PlayerHealth invariant of the spec for a player whose hit points are set:
  current and maximal hit points both read back as integers, with
  \<open>0 \<le> current \<le> max\<close>.\<close>

definition hp_invariant :: "int \<Rightarrow> string \<Rightarrow> leveldb \<Rightarrow> bool" where
  "hp_invariant chat_id player_name db =
     (case getPlayerHp chat_id player_name db of
        Inl e \<Rightarrow> False
      | Inr cur \<Rightarrow>
          (case getPlayerMaxHp chat_id player_name db of
             Inl e \<Rightarrow> False
           | Inr mx \<Rightarrow> 0 \<le> cur \<and> cur \<le> mx))"

section \<open>Sample data\<close>

text \<open>A small configuration, card catalog and empty world, on which the handlers are
  evaluated for concrete commands. The last card of alice is spelled with the
  letter e-acute (0xe9): \<open>epee\<close> with both accents.\<close>

definition demo_config :: config where
  "demo_config =
     \<lparr>cards_dir = ''./cards'',
      spelling = [(''alice'', ''Alice'')],
      order = ''Alice Bob'',
      hp_defaults = [(''alice'', ''10''), (''bob'', ''8'')]\<rparr>"

definition demo_cards :: "string \<rightharpoonup> string list" where
  "demo_cards =
     map_of [(''alice'', [''sword'', ''shield'', ''swordfish'',
                          [CHR 0xE9, CHR ''p'', CHR 0xE9, CHR ''e'']]),
             (''bob'', [])]"

definition demo_env :: env where
  "demo_env = \<lparr>CONFIG = demo_config, CARDS = demo_cards\<rparr>"

definition demo_world :: world where
  "demo_world = \<lparr>DB = [], sent = []\<rparr>"

text \<open>The card of alice that is spelled with e-acute.\<close>

definition demo_epee :: string where
  "demo_epee = [CHR 0xE9, CHR ''p'', CHR 0xE9, CHR ''e'']"

text \<open>An environment whose roster holds \<open>bob\<close> and \<open>bob_jr\<close>.\<close>

definition demo_bobs :: env where
  "demo_bobs =
     \<lparr>CONFIG = demo_config\<lparr>order := ''bob bob_jr''\<rparr>,
      CARDS = map_of [(''bob'', []), (''bob_jr'', [''axe''])]\<rparr>"

text \<open>A world in which alice holds \<open>shield\<close> (flipped) and \<open>sword\<close> (unflipped).\<close>

definition demo_hand :: world where
  "demo_hand =
     demo_world\<lparr>DB := setPlayerCardStatus 1 ''alice'' ''sword'' False
                          (setPlayerCardStatus 1 ''alice'' ''shield'' True [])\<rparr>"

section \<open>Facts about the Python values and the store\<close>

lemma map_of_filter_neq: "map_of (filter (\<lambda>kv. fst kv \<noteq> k) xs) k' = (if k' = k then None else map_of xs k')"
  by (induction xs) auto

lemma map_of_insort_other: "k' \<noteq> k \<Longrightarrow> map_of (insort_key fst (k, v) xs) k' = map_of xs k'"
  by (induction xs) auto

lemma map_of_insort_fresh: "map_of xs k = None \<Longrightarrow> map_of (insort_key fst (k, v) xs) k = Some v"
  by (induction xs) (auto split: if_splits)

lemma Get_Put: "Get (Put k v db) k' = (if k' = k then Inr v else Get db k')"
  by (simp add: Get_def Put_def Delete_def map_of_filter_neq map_of_insort_other map_of_insort_fresh)

lemma Get_Delete: "Get (Delete k db) k' = (if k' = k then Inl KeyError else Get db k')"
  by (simp add: Get_def Delete_def map_of_filter_neq)

lemma of_char_digit_char: "d < 10 \<Longrightarrow> of_char (digit_char d) = 48 + d"
  by (simp add: digit_char_def)

lemma is_digit_digit_char: "d < 10 \<Longrightarrow> is_digit (digit_char d)"
  by (simp add: is_digit_def of_char_digit_char)

lemma digit_val_digit_char: "d < 10 \<Longrightarrow> digit_val (digit_char d) = d"
  by (simp add: digit_val_def of_char_digit_char)

lemma digits_all_digit: "c \<in> set (digits n) \<Longrightarrow> is_digit c"
proof (induction n rule: digits.induct)
  case (1 n)
  then show ?case
    by (subst (asm) digits.simps) (auto simp: is_digit_digit_char split: if_splits)
qed

lemma digits_nonempty: "digits n \<noteq> []"
  by (subst digits.simps) simp

lemma digit_group_all: "ds \<noteq> [] \<Longrightarrow> \<forall>c\<in>set ds. is_digit c \<Longrightarrow> digit_group ds"
proof (induction ds rule: digit_group.induct)
  case (3 c d r)
  then show ?case by (auto simp: is_digit_def)
qed auto

lemma digits_val_snoc: "digits_val (ds @ [c]) = 10 * digits_val ds + digit_val c"
  by (simp add: digits_val_def)

lemma digits_val_digits: "digits_val (digits n) = n"
proof (induction n rule: digits.induct)
  case (1 n)
  show ?case
  proof (cases "n < 10")
    case True
    then show ?thesis by (subst digits.simps) (simp add: digits_val_def digit_val_digit_char)
  next
    case False
    with 1 show ?thesis
      by (subst digits.simps) (simp add: digits_val_snoc digit_val_digit_char)
  qed
qed


lemma dropWhile_none: "\<forall>x\<in>set xs. \<not> P x \<Longrightarrow> dropWhile P xs = xs"
  by (cases xs) auto

lemma strip_id: "\<forall>c\<in>set s. \<not> is_int_padding c \<Longrightarrow> strip s = s"
  by (simp add: strip_def dropWhile_none)

lemma is_digit_not_space: "is_digit c \<Longrightarrow> \<not> is_int_padding c"
  by (auto simp: is_digit_def is_int_padding_def Let_def)

lemma is_digit_not_sign: "is_digit c \<Longrightarrow> c \<noteq> CHR ''-'' \<and> c \<noteq> CHR ''+'' \<and> c \<noteq> CHR ''_''"
  by (auto simp: is_digit_def)

lemma digits_no_underscore: "filter (\<lambda>c. c \<noteq> CHR ''_'') (digits n) = digits n"
  using digits_all_digit is_digit_not_sign by (auto simp: filter_id_conv)

lemma digit_group_digits: "digit_group (digits n)"
  by (rule digit_group_all) (auto simp: digits_nonempty digits_all_digit)

lemma hd_digits: "is_digit (hd (digits n))"
  by (rule digits_all_digit [of _ n]) (simp add: digits_nonempty)

lemma py_int_digits: "py_int (digits n) = Inr (int n)"
proof -
  have "strip (digits n) = digits n"
    by (rule strip_id) (auto dest: digits_all_digit is_digit_not_space)
  moreover have "hd (digits n) \<noteq> CHR ''-''" "hd (digits n) \<noteq> CHR ''+''"
    using hd_digits [of n] is_digit_not_sign by blast+
  ultimately show ?thesis
    by (simp add: py_int_def Let_def digit_group_digits digits_no_underscore digits_val_digits)
qed

lemma py_int_minus_digits: "py_int (CHR ''-'' # digits n) = Inr (- int n)"
proof -
  have "\<not> is_int_padding CHR ''-''"
    by (simp add: is_int_padding_def)
  then have "strip (CHR ''-'' # digits n) = CHR ''-'' # digits n"
    by (intro strip_id) (auto dest: digits_all_digit is_digit_not_space)
  then show ?thesis
    by (simp add: py_int_def Let_def digit_group_digits digits_no_underscore digits_val_digits)
qed

lemma py_int_str_int: "py_int (str_int n) = Inr n"
  by (simp add: str_int_def py_int_digits py_int_minus_digits)

lemma str_int_inj: "str_int a = str_int b \<Longrightarrow> a = b"
  by (metis py_int_str_int sum.inject(2))

lemma split_acc_token:
  "\<forall>c\<in>set t. \<not> is_space c \<Longrightarrow> split_acc cur (t @ rest) = split_acc (cur @ t) rest"
  by (induction t arbitrary: cur) auto

lemma is_space_blank: "is_space CHR '' ''"
  by (simp add: is_space_def)

lemma split_acc_token_end:
  "t \<noteq> [] \<Longrightarrow> \<forall>c\<in>set t. \<not> is_space c \<Longrightarrow> split_acc [] t = [t]"
  using split_acc_token [of t "[]" "[]"] by simp

lemma split_acc_token_blank:
  "t \<noteq> [] \<Longrightarrow> \<forall>c\<in>set t. \<not> is_space c \<Longrightarrow>
   split_acc [] (t @ CHR '' '' # rest) = t # split_acc [] rest"
  using split_acc_token [of t "[]" "CHR '' '' # rest"] by (simp add: is_space_blank)

lemma split_join:
  "\<forall>n\<in>set names. n \<noteq> [] \<and> (\<forall>c\<in>set n. \<not> is_space c) \<Longrightarrow> split (join '' '' names) = names"
proof (induction names)
  case Nil
  then show ?case by (simp add: split_def)
next
  case (Cons x xs)
  show ?case
  proof (cases xs)
    case Nil
    with Cons.prems show ?thesis by (simp add: split_def split_acc_token_end)
  next
    case (Cons y ys)
    with Cons.IH Cons.prems have "split_acc [] (join '' '' (y # ys)) = y # ys"
      by (simp add: split_def)
    with Cons Cons.prems show ?thesis
      by (simp add: split_def split_acc_token_blank)
  qed
qed


lemma lower_char_idem: "lower_char (lower_char c) = lower_char c"
  by (auto simp: lower_char_def Let_def)

lemma lower_idem: "lower (lower s) = lower s"
  by (simp add: lower_def lower_char_idem)

lemma key_neq_list_current: "player_list_key a \<noteq> current_player_id_key b"
  by (simp add: player_list_key_def current_player_id_key_def)

lemma player_list_key_inj: "player_list_key a = player_list_key b \<longleftrightarrow> a = b"
  by (auto simp: player_list_key_def dest: str_int_inj)

lemma current_player_id_key_inj: "current_player_id_key a = current_player_id_key b \<longleftrightarrow> a = b"
  by (auto simp: current_player_id_key_def dest: str_int_inj)

lemma hp_key_neq_max: "player_hp_key a p \<noteq> player_max_hp_key b q"
  by (simp add: player_hp_key_def player_max_hp_key_def)

lemma hp_key_neq_others:
  "player_hp_key a p \<noteq> player_list_key b" "player_hp_key a p \<noteq> current_player_id_key b"
  "player_max_hp_key a p \<noteq> player_list_key b" "player_max_hp_key a p \<noteq> current_player_id_key b"
  by (simp_all add: player_hp_key_def player_max_hp_key_def player_list_key_def current_player_id_key_def)

lemma getCurrentPlayerId_set:
  "getCurrentPlayerId c (setCurrentPlayerId c' i db) = (if c = c' then Inr i else getCurrentPlayerId c db)"
  by (simp add: getCurrentPlayerId_def setCurrentPlayerId_def Get_Put py_int_str_int current_player_id_key_inj)

lemma player_list_of_setCurrent:
  "player_list_of c (setCurrentPlayerId c' i db) = player_list_of c db"
  by (simp add: player_list_of_def setCurrentPlayerId_def Get_Put key_neq_list_current)


lemma subscript_in_range:
  "0 \<le> i \<Longrightarrow> i < int (length xs) \<Longrightarrow> subscript xs i = Inr (xs ! nat i)"
  by (simp add: subscript_def)

lemma endTurn_step:
  assumes pl: "player_list_of chat (DB w) = Inr names"
    and ne: "names \<noteq> []"
    and cur: "getCurrentPlayerId chat (DB w) = Inr i"
    and lo: "0 \<le> i" and hi: "i < int (length names)"
  shows "endTurn cfg chat w =
    (Returned,
     reply chat ''{}'s turn ended. It is now {}'s turn.''
       [ArgStr (getSpelling cfg (names ! nat i)),
        ArgStr (getSpelling cfg (names ! nat ((i + 1) mod int (length names))))]
       (w\<lparr>DB := setCurrentPlayerId chat ((i + 1) mod int (length names)) (DB w)\<rparr>))"
proof -
  let ?n = "int (length names)"
  have npos: "0 < ?n" using ne by simp
  have nxt: "getNextPlayerId chat (DB w) = Inr ((i + 1) mod ?n)"
    using npos by (simp add: getNextPlayerId_def pl cur py_mod_def)
  have r0: "0 \<le> (i + 1) mod ?n" and r1: "(i + 1) mod ?n < ?n"
    using npos by simp_all
  have g1: "getPlayerById chat i (DB w) = Inr (names ! nat i)"
    by (simp add: getPlayerById_def pl subscript_in_range lo hi)
  have g2: "getPlayerById chat ((i + 1) mod ?n)
              (setCurrentPlayerId chat ((i + 1) mod ?n) (DB w))
            = Inr (names ! nat ((i + 1) mod ?n))"
    using r0 r1 by (simp add: getPlayerById_def player_list_of_setCurrent pl subscript_in_range)
  show ?thesis
    by (simp add: endTurn_def cur g1 nxt g2 Let_def)
qed

lemma DB_reply: "DB (reply c t a w) = DB w"
  by (simp add: reply_def)

lemma endTurn_iter:
  assumes pl: "player_list_of chat (DB w) = Inr names"
    and ne: "names \<noteq> []"
    and cur: "getCurrentPlayerId chat (DB w) = Inr i"
    and lo: "0 \<le> i" and hi: "i < int (length names)"
  shows "player_list_of chat (DB (((\<lambda>v. snd (endTurn cfg chat v)) ^^ k) w)) = Inr names \<and>
         getCurrentPlayerId chat (DB (((\<lambda>v. snd (endTurn cfg chat v)) ^^ k) w))
           = Inr ((i + int k) mod int (length names))"
proof (induction k)
  case 0
  then show ?case using pl cur lo hi by simp
next
  case (Suc k)
  let ?n = "int (length names)"
  let ?wk = "((\<lambda>v. snd (endTurn cfg chat v)) ^^ k) w"
  let ?j = "(i + int k) mod ?n"
  have npos: "0 < ?n" using ne by simp
  have j0: "0 \<le> ?j" and j1: "?j < ?n" using npos by simp_all
  from Suc have pk: "player_list_of chat (DB ?wk) = Inr names"
    and ck: "getCurrentPlayerId chat (DB ?wk) = Inr ?j" by simp_all
  have step: "DB (snd (endTurn cfg chat ?wk)) = setCurrentPlayerId chat ((?j + 1) mod ?n) (DB ?wk)"
    by (simp add: endTurn_step [OF pk ne ck j0 j1] DB_reply)
  have "(?j + 1) mod ?n = (i + int k + 1) mod ?n"
    by (rule mod_add_left_eq)
  then have "(?j + 1) mod ?n = (i + int (Suc k)) mod ?n"
    by (simp add: ac_simps)
  with step pk show ?case
    by (simp add: player_list_of_setCurrent getCurrentPlayerId_set)
qed


text \<open>Unfolding sets for evaluating the model on concrete inputs.\<close>

lemmas py_eval =
  split_def is_space_def lower_def lower_char_def char_of_def bit_Suc_0_iff subscript_def
  str_int_def digits.simps digit_char_def Let_def

lemmas key_defs =
  current_player_id_key_def player_list_key_def player_hp_key_def player_max_hp_key_def
  key_prefix_def card_key_def

lemmas store_defs = Get_def Put_def Delete_def RangeIter_def

section \<open>Turn rotation\<close>

text \<open>
  Claim C5. In a chat whose stored player order has \<open>n > 0\<close> names and whose current-turn
  index \<open>i\<close> lies in \<open>[0, n)\<close>, the next index is \<open>(i + 1) mod n\<close>, \<open>endTurn\<close> returns and
  stores that index, every further \<open>endTurn\<close> returns as well, \<open>n\<close> turn ends bring the
  index back to \<open>i\<close>, and with a single player the index stays where it is.
\<close>

theorem endTurn_cycles:
  assumes "player_list_of chat (DB w) = Inr names"
    and "names \<noteq> []"
    and "getCurrentPlayerId chat (DB w) = Inr i"
    and "0 \<le> i" and "i < int (length names)"
  shows "getNextPlayerId chat (DB w) = Inr ((i + 1) mod int (length names))
    \<and> fst (endTurn cfg chat w) = Returned
    \<and> getCurrentPlayerId chat (DB (snd (endTurn cfg chat w)))
        = Inr ((i + 1) mod int (length names))
    \<and> (\<forall>k. fst (endTurn cfg chat (((\<lambda>v. snd (endTurn cfg chat v)) ^^ k) w)) = Returned)
    \<and> getCurrentPlayerId chat (DB (((\<lambda>v. snd (endTurn cfg chat v)) ^^ length names) w)) = Inr i
    \<and> (length names = 1 \<longrightarrow> getCurrentPlayerId chat (DB (snd (endTurn cfg chat w))) = Inr i)"
proof -
  let ?n = "int (length names)"
  let ?it = "\<lambda>k. ((\<lambda>v. snd (endTurn cfg chat v)) ^^ k) w"
  have npos: "0 < ?n" using assms(2) by simp
  have nxt: "getNextPlayerId chat (DB w) = Inr ((i + 1) mod ?n)"
    using npos by (simp add: getNextPlayerId_def assms(1,3) py_mod_def)
  have one: "endTurn cfg chat w =
    (Returned,
     reply chat ''{}'s turn ended. It is now {}'s turn.''
       [ArgStr (getSpelling cfg (names ! nat i)),
        ArgStr (getSpelling cfg (names ! nat ((i + 1) mod ?n)))]
       (w\<lparr>DB := setCurrentPlayerId chat ((i + 1) mod ?n) (DB w)\<rparr>))"
    by (rule endTurn_step [OF assms])
  have cur1: "getCurrentPlayerId chat (DB (snd (endTurn cfg chat w))) = Inr ((i + 1) mod ?n)"
    by (simp add: one DB_reply getCurrentPlayerId_set)
  have all: "fst (endTurn cfg chat (?it k)) = Returned" for k
  proof -
    have pk: "player_list_of chat (DB (?it k)) = Inr names"
      and ck: "getCurrentPlayerId chat (DB (?it k)) = Inr ((i + int k) mod ?n)"
      using endTurn_iter [OF assms, where cfg=cfg and k=k] by simp_all
    have "0 \<le> (i + int k) mod ?n" "(i + int k) mod ?n < ?n" using npos by simp_all
    then show ?thesis
      by (simp add: endTurn_step [OF pk assms(2) ck])
  qed
  have "getCurrentPlayerId chat (DB (?it (length names))) = Inr ((i + ?n) mod ?n)"
    using endTurn_iter [OF assms, where cfg=cfg and k="length names"] by simp
  then have cyc: "getCurrentPlayerId chat (DB (?it (length names))) = Inr i"
    using assms(4,5) by simp
  have single: "length names = 1 \<longrightarrow> getCurrentPlayerId chat (DB (snd (endTurn cfg chat w))) = Inr i"
    using cur1 assms(4,5) by auto
  from nxt one cur1 all cyc single show ?thesis by simp
qed

theorem endTurn_cycles_witness:
  "getNextPlayerId 7 (DB (demo_world\<lparr>DB := setPlayerOrder 7 [''alice'', ''bob''] []\<rparr>)) = Inr 1
   \<and> getCurrentPlayerId 7
       (DB (((\<lambda>v. snd (endTurn demo_config 7 v)) ^^ 2)
              (demo_world\<lparr>DB := setPlayerOrder 7 [''alice'', ''bob''] []\<rparr>))) = Inr 0"
proof -
  let ?w = "demo_world\<lparr>DB := setPlayerOrder 7 [''alice'', ''bob''] []\<rparr>"
  have h1: "player_list_of 7 (DB ?w) = Inr [''alice'', ''bob'']"
    by (simp add: player_list_of_def setPlayerOrder_def setCurrentPlayerId_def store_defs
        key_defs py_eval)
  have h2: "[''alice'', ''bob''] \<noteq> ([] :: string list)" by simp
  have h3: "getCurrentPlayerId 7 (DB ?w) = Inr 0"
    by (simp add: setPlayerOrder_def getCurrentPlayerId_set)
  have h4: "(0::int) \<le> 0" and h5: "(0::int) < int (length [''alice'', ''bob''])" by simp_all
  from endTurn_cycles [OF h1 h2 h3 h4 h5, where cfg=demo_config] show ?thesis
    by (simp add: numeral_2_eq_2)
qed


lemma player_list_of_setPlayerOrder:
  "player_list_of c (setPlayerOrder c' names db) =
     (if c = c' then Inr (split (join '' '' names)) else player_list_of c db)"
  by (simp add: setPlayerOrder_def setCurrentPlayerId_def player_list_of_def Get_Put
      player_list_key_inj key_neq_list_current)

lemma getCurrentPlayerId_setPlayerOrder:
  "getCurrentPlayerId c (setPlayerOrder c' names db) =
     (if c = c' then Inr 0 else getCurrentPlayerId c db)"
  using key_neq_list_current [of c' c]
  by (auto simp: setPlayerOrder_def setCurrentPlayerId_def getCurrentPlayerId_def Get_Put
      py_int_str_int current_player_id_key_inj)

lemma Get_setPlayerOrder:
  "k \<noteq> player_list_key c \<Longrightarrow> k \<noteq> current_player_id_key c \<Longrightarrow>
   Get (setPlayerOrder c names db) k = Get db k"
  by (simp add: setPlayerOrder_def setCurrentPlayerId_def Get_Put)

lemma filter_insort_key_out:
  "\<not> P x \<Longrightarrow> filter P (insort_key f x xs) = filter P xs"
  by (induction xs) auto

lemma RangeIter_Put_outside:
  "\<not> (a \<le> k \<and> k \<le> b) \<Longrightarrow> RangeIter a b (Put k v db) = RangeIter a b db"
proof -
  assume out: "\<not> (a \<le> k \<and> k \<le> b)"
  have "filter (\<lambda>kv. a \<le> fst kv \<and> fst kv \<le> b) (filter (\<lambda>kv. fst kv \<noteq> k) db)
        = filter (\<lambda>kv. a \<le> fst kv \<and> fst kv \<le> b) db"
    using out by (induction db) auto
  with out show ?thesis
    by (simp add: RangeIter_def Put_def Delete_def filter_insort_key_out)
qed

lemma list_key_above_cards: "\<not> player_list_key c \<le> key_prefix c' p @ s"
  by (simp add: player_list_key_def key_prefix_def)

lemma current_key_above_cards: "\<not> current_player_id_key c \<le> key_prefix c' p @ s"
  by (simp add: current_player_id_key_def key_prefix_def)

lemma getPlayerCards_setPlayerOrder:
  "getPlayerCards c p f (setPlayerOrder c' names db) = getPlayerCards c p f db"
  by (simp add: getPlayerCards_def setPlayerOrder_def setCurrentPlayerId_def
      RangeIter_Put_outside list_key_above_cards current_key_above_cards)

lemma getPlayerHp_setPlayerOrder:
  "getPlayerHp c p (setPlayerOrder c' names db) = getPlayerHp c p db"
  "getPlayerMaxHp c p (setPlayerOrder c' names db) = getPlayerMaxHp c p db"
  by (simp_all add: getPlayerHp_def getPlayerMaxHp_def Get_setPlayerOrder hp_key_neq_others)


section \<open>Setting the player order\<close>

text \<open>
  Claim C8. For every chat and every list of whitespace-free names (a name is a
  token: it is not empty, as in every list the program passes, which come from
  \<open>split\<close>), \<open>setPlayerOrder\<close> followed by reading the order back yields the
  same names in the same sequence (\<open>getPlayerById\<close> subscripts that list), and the
  current-turn index reads 0 whatever the store held before. No key but the chat's
  own \<open>player_list\<close> and \<open>current_player\<close> keys changes, so the order and index of
  every other chat, all hit points and all card listings are as before.
\<close>

theorem setPlayerOrder_roundtrip:
  assumes "\<forall>n\<in>set names. n \<noteq> [] \<and> (\<forall>c\<in>set n. \<not> is_space c)"
  shows "player_list_of chat (setPlayerOrder chat names db) = Inr names
    \<and> (\<forall>i. getPlayerById chat i (setPlayerOrder chat names db) = subscript names i)
    \<and> getCurrentPlayerId chat (setPlayerOrder chat names db) = Inr 0
    \<and> (\<forall>k. k \<noteq> player_list_key chat \<and> k \<noteq> current_player_id_key chat
          \<longrightarrow> Get (setPlayerOrder chat names db) k = Get db k)
    \<and> (\<forall>chat'. chat' \<noteq> chat \<longrightarrow>
          player_list_of chat' (setPlayerOrder chat names db) = player_list_of chat' db
          \<and> getCurrentPlayerId chat' (setPlayerOrder chat names db) = getCurrentPlayerId chat' db)
    \<and> (\<forall>chat' p. getPlayerHp chat' p (setPlayerOrder chat names db) = getPlayerHp chat' p db
          \<and> getPlayerMaxHp chat' p (setPlayerOrder chat names db) = getPlayerMaxHp chat' p db)
    \<and> (\<forall>chat' p f. getPlayerCards chat' p f (setPlayerOrder chat names db)
          = getPlayerCards chat' p f db)"
proof -
  have rd: "player_list_of chat (setPlayerOrder chat names db) = Inr names"
    using assms by (simp add: player_list_of_setPlayerOrder split_join)
  then have ix: "getPlayerById chat i (setPlayerOrder chat names db) = subscript names i" for i
    by (simp add: getPlayerById_def)
  show ?thesis
    by (simp add: ix split_join [OF assms] getCurrentPlayerId_setPlayerOrder Get_setPlayerOrder
        player_list_of_setPlayerOrder getPlayerHp_setPlayerOrder getPlayerCards_setPlayerOrder)
qed

theorem setPlayerOrder_roundtrip_witness:
  "player_list_of 7 (setPlayerOrder 7 [''alice'', ''bob''] (setCurrentPlayerId 7 5 []))
     = Inr [''alice'', ''bob'']
   \<and> getPlayerById 7 1 (setPlayerOrder 7 [''alice'', ''bob''] (setCurrentPlayerId 7 5 []))
     = Inr ''bob''
   \<and> getCurrentPlayerId 7 (setPlayerOrder 7 [''alice'', ''bob''] (setCurrentPlayerId 7 5 []))
     = Inr 0"
proof -
  have h: "\<forall>n\<in>set [''alice'', ''bob'']. n \<noteq> [] \<and> (\<forall>c\<in>set n. \<not> is_space c)"
    by (simp add: is_space_def)
  from setPlayerOrder_roundtrip [OF h, of 7 "setCurrentPlayerId 7 5 []"] show ?thesis
    by (simp add: subscript_def)
qed

text \<open>
  Claim C10. A \<open>/setplayerlist\<close> message with no names after the command is accepted:
  the handler returns, replies, and stores an empty player order with index 0. From
  then on \<open>getNextPlayerId\<close> raises ZeroDivisionError (modulo by the length 0),
  \<open>getPlayerById\<close> raises IndexError, and so \<open>endTurn\<close> and \<open>getCurrentPlayer\<close> raise
  without replying.
\<close>

theorem setPlayerList_no_names:
  assumes "drop 1 (split (lower text)) = []"
  shows "fst (setPlayerList chat text w) = Returned
    \<and> sent (snd (setPlayerList chat text w)) = sent w @ [send_message chat ''Player list set.'' []]
    \<and> player_list_of chat (DB (snd (setPlayerList chat text w))) = Inr []
    \<and> getCurrentPlayerId chat (DB (snd (setPlayerList chat text w))) = Inr 0
    \<and> getNextPlayerId chat (DB (snd (setPlayerList chat text w))) = Inl ZeroDivisionError
    \<and> getPlayerById chat 0 (DB (snd (setPlayerList chat text w))) = Inl IndexError
    \<and> endTurn cfg chat (snd (setPlayerList chat text w))
        = (Raised IndexError, snd (setPlayerList chat text w))
    \<and> getCurrentPlayer cfg chat (snd (setPlayerList chat text w))
        = (Raised IndexError, snd (setPlayerList chat text w))"
proof -
  let ?w = "snd (setPlayerList chat text w)"
  have db: "DB ?w = setPlayerOrder chat [] (DB w)"
    using assms by (simp add: setPlayerList_def DB_reply)
  have pl: "player_list_of chat (DB ?w) = Inr []"
    by (simp add: db player_list_of_setPlayerOrder split_def)
  have cu: "getCurrentPlayerId chat (DB ?w) = Inr 0"
    by (simp add: db getCurrentPlayerId_setPlayerOrder)
  have nx: "getNextPlayerId chat (DB ?w) = Inl ZeroDivisionError"
    by (simp add: getNextPlayerId_def pl cu py_mod_def)
  have gp: "getPlayerById chat 0 (DB ?w) = Inl IndexError"
    by (simp add: getPlayerById_def pl subscript_def)
  have et: "endTurn cfg chat ?w = (Raised IndexError, ?w)"
    by (simp add: endTurn_def cu gp)
  have gc: "getCurrentPlayer cfg chat ?w = (Raised IndexError, ?w)"
    by (simp add: getCurrentPlayer_def cu gp)
  have "fst (setPlayerList chat text w) = Returned"
    and "sent ?w = sent w @ [send_message chat ''Player list set.'' []]"
    by (simp_all add: setPlayerList_def reply_def)
  with pl cu nx gp et gc show ?thesis by simp
qed

theorem setPlayerList_no_names_witness:
  "player_list_of 7 (DB (snd (setPlayerList 7 ''/setplayerlist'' demo_world))) = Inr []
   \<and> getNextPlayerId 7 (DB (snd (setPlayerList 7 ''/setplayerlist'' demo_world)))
       = Inl ZeroDivisionError
   \<and> fst (endTurn demo_config 7 (snd (setPlayerList 7 ''/setplayerlist'' demo_world)))
       = Raised IndexError"
proof -
  have h: "drop 1 (split (lower ''/setplayerlist'')) = []"
    by (simp add: py_eval)
  from setPlayerList_no_names [OF h, of 7 demo_world demo_config] show ?thesis
    by simp
qed


section \<open>Hit points\<close>

lemma hp_keys_same:
  "player_max_hp_key c q = player_max_hp_key c' p \<longleftrightarrow> player_hp_key c q = player_hp_key c' p"
  by (simp add: player_hp_key_def player_max_hp_key_def)

lemma getPlayerHp_setPlayerHp:
  "getPlayerHp c q (setPlayerHp c' p v db) =
     (if player_hp_key c q = player_hp_key c' p then py_int (str v) else getPlayerHp c q db)"
  by (simp add: getPlayerHp_def setPlayerHp_def Get_Put)

lemma getPlayerMaxHp_setPlayerMaxHp:
  "getPlayerMaxHp c q (setPlayerMaxHp c' p v db) =
     (if player_hp_key c q = player_hp_key c' p then py_int (str v) else getPlayerMaxHp c q db)"
  by (simp add: getPlayerMaxHp_def setPlayerMaxHp_def Get_Put hp_keys_same)

lemma getPlayerHp_setPlayerMaxHp:
  "getPlayerHp c q (setPlayerMaxHp c' p v db) = getPlayerHp c q db"
  by (simp add: getPlayerHp_def setPlayerMaxHp_def Get_Put hp_key_neq_max)

lemma getPlayerMaxHp_setPlayerHp:
  "getPlayerMaxHp c q (setPlayerHp c' p v db) = getPlayerMaxHp c q db"
  using hp_key_neq_max [of c' p c q]
  by (auto simp: getPlayerMaxHp_def setPlayerHp_def Get_Put)

lemma same_key_reads:
  assumes "player_hp_key c q = player_hp_key c' p"
  shows "getPlayerHp c q db = getPlayerHp c' p db"
    and "getPlayerMaxHp c q db = getPlayerMaxHp c' p db"
proof -
  from assms have "player_max_hp_key c q = player_max_hp_key c' p"
    by (simp add: hp_keys_same)
  with assms show "getPlayerHp c q db = getPlayerHp c' p db"
    and "getPlayerMaxHp c q db = getPlayerMaxHp c' p db"
    by (simp_all add: getPlayerHp_def getPlayerMaxHp_def)
qed

lemma hp_params:
  assumes "split text = cmd # p # opn # tok # rest"
  shows "subscript (split text) 1 = Inr p"
    and "length (split text) \<noteq> 2"
    and "subscript (split text) 2 = Inr opn"
    and "subscript (split text) 3 = Inr tok"
  using assms by (simp_all add: subscript_def)

lemma hpCommand_set:
  assumes sp: "split text = cmd # p # opn # tok # rest"
    and ro: "p \<in> set (split (lower (order cfg)))"
    and opn: "opn = ''set'' \<or> opn = ''=''"
    and tok: "py_int tok = Inr n"
  shows "hpCommand cfg chat text w =
    (Returned,
     reply chat ''{}'s HP set to {}.'' [ArgStr (getSpelling cfg p), ArgInt n]
       (w\<lparr>DB := setPlayerMaxHp chat p (PyInt n) (setPlayerHp chat p (PyInt n) (DB w))\<rparr>))"
  using opn ro tok
  by (auto simp: hpCommand_def Let_def hp_params [OF sp] int_param3_def)

lemma hpCommand_add:
  assumes sp: "split text = cmd # p # opn # tok # rest"
    and ro: "p \<in> set (split (lower (order cfg)))"
    and opn: "opn = ''add'' \<or> opn = ''+''"
    and tok: "py_int tok = Inr n"
    and cur: "getPlayerHp chat p (DB w) = Inr cur"
    and mx: "getPlayerMaxHp chat p (DB w) = Inr mx"
  shows "hpCommand cfg chat text w =
    (Returned,
     reply chat ''{}'s HP set to {}.'' [ArgStr (getSpelling cfg p), ArgInt (min (cur + n) mx)]
       (w\<lparr>DB := setPlayerHp chat p (PyInt (min (cur + n) mx)) (DB w)\<rparr>))"
  using opn ro tok cur mx
  by (auto simp: hpCommand_def Let_def hp_params [OF sp] int_param3_def)

lemma hpCommand_sub:
  assumes sp: "split text = cmd # p # opn # tok # rest"
    and ro: "p \<in> set (split (lower (order cfg)))"
    and opn: "opn = ''sub'' \<or> opn = ''-''"
    and tok: "py_int tok = Inr n"
    and cur: "getPlayerHp chat p (DB w) = Inr cur"
  shows "hpCommand cfg chat text w =
    (Returned,
     reply chat ''{}'s HP set to {}.'' [ArgStr (getSpelling cfg p), ArgInt (max (cur - n) 0)]
       (w\<lparr>DB := setPlayerHp chat p (PyInt (max (cur - n) 0)) (DB w)\<rparr>))"
  using opn ro tok cur
  by (auto simp: hpCommand_def Let_def hp_params [OF sp] int_param3_def)


lemmas int_eval = py_int_def strip_def is_int_padding_def is_digit_def digits_val_def digit_val_def Let_def


text \<open>
  Claim C3, as amended. For a roster player whose stored hit points satisfy
  \<open>0 \<le> current \<le> max\<close> and an amount \<open>n \<ge> 0\<close>, \<open>/hp p add n\<close> (or \<open>+\<close>) returns and stores
  \<open>clamp(current + n, 0, max)\<close>, and \<open>/hp p sub n\<close> (or \<open>-\<close>) returns and stores
  \<open>clamp(current - n, 0, max)\<close>; the maximum is not changed, and the stored value lies
  in \<open>[0, max]\<close>. In particular, after \<open>set 20\<close>, \<open>add 100\<close> gives 20 and \<open>sub 100\<close> gives 0.
\<close>

theorem hp_adjust_clamps:
  assumes sp: "split text = cmd # p # opn # tok # rest"
    and ro: "p \<in> set (split (lower (order cfg)))"
    and tok: "py_int tok = Inr n" and n0: "0 \<le> n"
    and cur: "getPlayerHp chat p (DB w) = Inr cur"
    and mx: "getPlayerMaxHp chat p (DB w) = Inr mx"
    and inv: "0 \<le> cur" "cur \<le> mx"
  shows "(opn = ''add'' \<or> opn = ''+'' \<longrightarrow>
           fst (hpCommand cfg chat text w) = Returned
           \<and> getPlayerHp chat p (DB (snd (hpCommand cfg chat text w))) = Inr (clamp (cur + n) 0 mx)
           \<and> getPlayerMaxHp chat p (DB (snd (hpCommand cfg chat text w))) = Inr mx)
    \<and> (opn = ''sub'' \<or> opn = ''-'' \<longrightarrow>
           fst (hpCommand cfg chat text w) = Returned
           \<and> getPlayerHp chat p (DB (snd (hpCommand cfg chat text w))) = Inr (clamp (cur - n) 0 mx)
           \<and> getPlayerMaxHp chat p (DB (snd (hpCommand cfg chat text w))) = Inr mx)
    \<and> 0 \<le> clamp (cur + n) 0 mx \<and> clamp (cur + n) 0 mx \<le> mx
    \<and> 0 \<le> clamp (cur - n) 0 mx \<and> clamp (cur - n) 0 mx \<le> mx"
proof -
  have a: "min (cur + n) mx = clamp (cur + n) 0 mx" and s: "max (cur - n) 0 = clamp (cur - n) 0 mx"
    using n0 inv by (auto simp: clamp_def)
  have add: "opn = ''add'' \<or> opn = ''+'' \<Longrightarrow>
      hpCommand cfg chat text w =
        (Returned,
         reply chat ''{}'s HP set to {}.'' [ArgStr (getSpelling cfg p), ArgInt (clamp (cur + n) 0 mx)]
           (w\<lparr>DB := setPlayerHp chat p (PyInt (clamp (cur + n) 0 mx)) (DB w)\<rparr>))"
    using hpCommand_add [OF sp ro _ tok cur mx] by (simp add: a)
  have sub: "opn = ''sub'' \<or> opn = ''-'' \<Longrightarrow>
      hpCommand cfg chat text w =
        (Returned,
         reply chat ''{}'s HP set to {}.'' [ArgStr (getSpelling cfg p), ArgInt (clamp (cur - n) 0 mx)]
           (w\<lparr>DB := setPlayerHp chat p (PyInt (clamp (cur - n) 0 mx)) (DB w)\<rparr>))"
    using hpCommand_sub [OF sp ro _ tok cur] by (simp add: s)
  have rng: "0 \<le> clamp (cur + n) 0 mx \<and> clamp (cur + n) 0 mx \<le> mx
      \<and> 0 \<le> clamp (cur - n) 0 mx \<and> clamp (cur - n) 0 mx \<le> mx"
    using inv by (auto simp: clamp_def)
  show ?thesis
    using add sub rng mx
    by (auto simp: DB_reply getPlayerHp_setPlayerHp getPlayerMaxHp_setPlayerHp py_int_str_int)
qed


lemma demo_roster: "split (lower (order demo_config)) = [''alice'', ''bob'']"
  by (simp add: demo_config_def py_eval)

lemma demo_set_20:
  "hpCommand demo_config 1 ''/hp alice set 20'' demo_world =
    (Returned,
     reply 1 ''{}'s HP set to {}.'' [ArgStr ''Alice'', ArgInt 20]
       (demo_world\<lparr>DB := setPlayerMaxHp 1 ''alice'' (PyInt 20)
                              (setPlayerHp 1 ''alice'' (PyInt 20) (DB demo_world))\<rparr>))"
proof -
  have sp: "split ''/hp alice set 20'' = ''/hp'' # ''alice'' # ''set'' # ''20'' # []"
    by (simp add: py_eval)
  have ro: "''alice'' \<in> set (split (lower (order demo_config)))"
    by (simp add: demo_roster)
  have tok: "py_int ''20'' = Inr 20"
    by (simp add: int_eval)
  have sp': "getSpelling demo_config ''alice'' = ''Alice''"
    by (simp add: getSpelling_def demo_config_def py_eval)
  from hpCommand_set [OF sp ro _ tok, where chat=1 and w=demo_world] show ?thesis
    by (simp add: sp')
qed

lemma demo_after_set_20:
  "getPlayerHp 1 ''alice'' (DB (snd (hpCommand demo_config 1 ''/hp alice set 20'' demo_world))) = Inr 20"
  "getPlayerMaxHp 1 ''alice'' (DB (snd (hpCommand demo_config 1 ''/hp alice set 20'' demo_world))) = Inr 20"
  by (simp_all add: demo_set_20 DB_reply getPlayerHp_setPlayerHp getPlayerHp_setPlayerMaxHp
      getPlayerMaxHp_setPlayerMaxHp py_int_str_int)

theorem hp_adjust_clamps_witness:
  "getPlayerHp 1 ''alice''
     (DB (snd (hpCommand demo_config 1 ''/hp alice add 100''
                 (snd (hpCommand demo_config 1 ''/hp alice set 20'' demo_world))))) = Inr 20
   \<and> getPlayerHp 1 ''alice''
     (DB (snd (hpCommand demo_config 1 ''/hp alice - 100''
                 (snd (hpCommand demo_config 1 ''/hp alice set 20'' demo_world))))) = Inr 0"
proof -
  let ?w = "snd (hpCommand demo_config 1 ''/hp alice set 20'' demo_world)"
  have sp1: "split ''/hp alice add 100'' = ''/hp'' # ''alice'' # ''add'' # ''100'' # []"
    and sp2: "split ''/hp alice - 100'' = ''/hp'' # ''alice'' # ''-'' # ''100'' # []"
    by (simp_all add: py_eval)
  have ro: "''alice'' \<in> set (split (lower (order demo_config)))"
    by (simp add: demo_roster)
  have tok: "py_int ''100'' = Inr 100"
    by (simp add: int_eval)
  have n0: "(0::int) \<le> 100" and c0: "(0::int) \<le> 20" and cm: "(20::int) \<le> 20"
    by simp_all
  from hp_adjust_clamps [OF sp1 ro tok n0 demo_after_set_20 c0 cm]
    hp_adjust_clamps [OF sp2 ro tok n0 demo_after_set_20 c0 cm]
  show ?thesis
    by (simp add: clamp_def)
qed

text \<open>The claim as stated covers every integer the user may type. A negative amount
  after \<open>+\<close> takes the hit points below 0, and one after \<open>-\<close> takes them above the
  maximum: \<open>add\<close> bounds the sum from above only, \<open>sub\<close> the difference from below only.\<close>

theorem hp_adjust_negative_counterexample:
  "getPlayerHp 1 ''alice''
     (DB (snd (hpCommand demo_config 1 ''/hp alice + -100''
                 (snd (hpCommand demo_config 1 ''/hp alice set 20'' demo_world))))) = Inr (- 80)
   \<and> clamp (20 + (- 100)) 0 20 = 0
   \<and> getPlayerHp 1 ''alice''
     (DB (snd (hpCommand demo_config 1 ''/hp alice - -100''
                 (snd (hpCommand demo_config 1 ''/hp alice set 20'' demo_world))))) = Inr 120
   \<and> getPlayerMaxHp 1 ''alice''
     (DB (snd (hpCommand demo_config 1 ''/hp alice - -100''
                 (snd (hpCommand demo_config 1 ''/hp alice set 20'' demo_world))))) = Inr 20"
proof -
  let ?w = "snd (hpCommand demo_config 1 ''/hp alice set 20'' demo_world)"
  have sp1: "split ''/hp alice + -100'' = ''/hp'' # ''alice'' # ''+'' # ''-100'' # []"
    and sp2: "split ''/hp alice - -100'' = ''/hp'' # ''alice'' # ''-'' # ''-100'' # []"
    by (simp_all add: py_eval)
  have ro: "''alice'' \<in> set (split (lower (order demo_config)))"
    by (simp add: demo_roster)
  have tok: "py_int ''-100'' = Inr (- 100)"
    by (simp add: int_eval)
  show ?thesis
    by (simp add: hpCommand_add [OF sp1 ro _ tok demo_after_set_20]
        hpCommand_sub [OF sp2 ro _ tok demo_after_set_20(1)]
        DB_reply getPlayerHp_setPlayerHp getPlayerMaxHp_setPlayerHp py_int_str_int clamp_def
        demo_after_set_20)
qed


lemma hp_invariant_I:
  "getPlayerHp c q db = Inr cur \<Longrightarrow> getPlayerMaxHp c q db = Inr mx \<Longrightarrow> 0 \<le> cur \<Longrightarrow> cur \<le> mx
   \<Longrightarrow> hp_invariant c q db"
  by (simp add: hp_invariant_def)

lemma hp_invariant_D:
  "hp_invariant c q db \<Longrightarrow>
   \<exists>cur mx. getPlayerHp c q db = Inr cur \<and> getPlayerMaxHp c q db = Inr mx \<and> 0 \<le> cur \<and> cur \<le> mx"
  by (simp add: hp_invariant_def split: sum.splits)

lemma hp_invariant_same_key:
  assumes "player_hp_key c q = player_hp_key c' p"
  shows "hp_invariant c q db = hp_invariant c' p db"
proof -
  have "getPlayerHp c q db = getPlayerHp c' p db" "getPlayerMaxHp c q db = getPlayerMaxHp c' p db"
    using assms by (rule same_key_reads)+
  then show ?thesis by (simp only: hp_invariant_def)
qed

lemma hp_invariant_other_key:
  assumes "player_hp_key c q \<noteq> player_hp_key c' p"
  shows "hp_invariant c q (setPlayerHp c' p v db) = hp_invariant c q db"
    and "hp_invariant c q (setPlayerMaxHp c' p v db) = hp_invariant c q db"
proof -
  have "getPlayerHp c q (setPlayerHp c' p v db) = getPlayerHp c q db"
    "getPlayerMaxHp c q (setPlayerHp c' p v db) = getPlayerMaxHp c q db"
    "getPlayerHp c q (setPlayerMaxHp c' p v db) = getPlayerHp c q db"
    "getPlayerMaxHp c q (setPlayerMaxHp c' p v db) = getPlayerMaxHp c q db"
    using assms
    by (simp_all add: getPlayerHp_setPlayerHp getPlayerMaxHp_setPlayerHp
      getPlayerHp_setPlayerMaxHp getPlayerMaxHp_setPlayerMaxHp)
  then show "hp_invariant c q (setPlayerHp c' p v db) = hp_invariant c q db"
    and "hp_invariant c q (setPlayerMaxHp c' p v db) = hp_invariant c q db"
    by (simp_all only: hp_invariant_def)
qed


lemma set_both_establishes:
  assumes "py_int (str v) = Inr n" "0 \<le> n"
  shows "hp_invariant c p (setPlayerMaxHp c p v (setPlayerHp c p v db))"
proof (rule hp_invariant_I)
  show "getPlayerHp c p (setPlayerMaxHp c p v (setPlayerHp c p v db)) = Inr n"
    by (simp add: getPlayerHp_setPlayerMaxHp getPlayerHp_setPlayerHp assms(1))
  show "getPlayerMaxHp c p (setPlayerMaxHp c p v (setPlayerHp c p v db)) = Inr n"
    by (simp add: getPlayerMaxHp_setPlayerMaxHp assms(1))
  show "0 \<le> n" by (rule assms(2))
  show "n \<le> n" by simp
qed

lemma set_both_preserves:
  assumes "py_int (str v) = Inr n" "0 \<le> n" "hp_invariant c q db"
  shows "hp_invariant c q (setPlayerMaxHp c' p v (setPlayerHp c' p v db))"
proof (cases "player_hp_key c q = player_hp_key c' p")
  case True
  have "hp_invariant c' p (setPlayerMaxHp c' p v (setPlayerHp c' p v db))"
    by (rule set_both_establishes [OF assms(1,2)])
  then show ?thesis by (simp only: hp_invariant_same_key [OF True])
next
  case False
  with assms(3) show ?thesis by (simp only: hp_invariant_other_key [OF False])
qed

lemma set_hp_preserves:
  assumes inv: "hp_invariant c q db"
    and rng: "\<And>cur mx. getPlayerHp c' p db = Inr cur \<Longrightarrow> getPlayerMaxHp c' p db = Inr mx \<Longrightarrow>
              0 \<le> cur \<Longrightarrow> cur \<le> mx \<Longrightarrow> 0 \<le> h \<and> h \<le> mx"
  shows "hp_invariant c q (setPlayerHp c' p (PyInt h) db)"
proof (cases "player_hp_key c q = player_hp_key c' p")
  case True
  from inv have "hp_invariant c' p db" by (simp only: hp_invariant_same_key [OF True])
  then obtain cur mx where cur: "getPlayerHp c' p db = Inr cur"
    and mx: "getPlayerMaxHp c' p db = Inr mx" and b: "0 \<le> cur" "cur \<le> mx"
    using hp_invariant_D by blast
  from rng [OF cur mx b] have h: "0 \<le> h" "h \<le> mx" by simp_all
  have "hp_invariant c' p (setPlayerHp c' p (PyInt h) db)"
  proof (rule hp_invariant_I)
    show "getPlayerHp c' p (setPlayerHp c' p (PyInt h) db) = Inr h"
      by (simp add: getPlayerHp_setPlayerHp py_int_str_int)
    show "getPlayerMaxHp c' p (setPlayerHp c' p (PyInt h) db) = Inr mx"
      by (simp add: getPlayerMaxHp_setPlayerHp mx)
  qed (rule h)+
  then show ?thesis by (simp only: hp_invariant_same_key [OF True])
next
  case False
  with inv show ?thesis by (simp only: hp_invariant_other_key [OF False])
qed

lemma loop_preserves:
  "\<forall>(nm, v)\<in>set xs. \<exists>m. py_int v = Inr m \<and> 0 \<le> m \<Longrightarrow> hp_invariant c q db \<Longrightarrow>
   hp_invariant c q (setDefaultHps_loop chat xs db)"
proof (induction xs arbitrary: db)
  case Nil
  then show ?case by simp
next
  case (Cons x xs)
  obtain nm v where x: "x = (nm, v)" by (cases x)
  from Cons.prems(1) x obtain m where m: "py_int (str (PyStr v)) = Inr m" "0 \<le> m" by auto
  have "hp_invariant c q
          (setPlayerMaxHp chat (lower nm) (PyStr v) (setPlayerHp chat (lower nm) (PyStr v) db))"
    by (rule set_both_preserves [OF m Cons.prems(2)])
  moreover from Cons.prems(1) have "\<forall>(nm, v)\<in>set xs. \<exists>m. py_int v = Inr m \<and> 0 \<le> m" by simp
  ultimately show ?case using Cons.IH by (simp add: x)
qed

lemma hp_key_lower: "player_hp_key c (lower p) = player_hp_key c p"
  by (simp add: player_hp_key_def lower_idem)

lemma loop_establishes:
  "\<forall>(nm, v)\<in>set xs. \<exists>m. py_int v = Inr m \<and> 0 \<le> m \<Longrightarrow> (q, u) \<in> set xs \<Longrightarrow>
   hp_invariant chat q (setDefaultHps_loop chat xs db)"
proof (induction xs arbitrary: db)
  case Nil
  then show ?case by simp
next
  case (Cons x xs)
  obtain nm v where x: "x = (nm, v)" by (cases x)
  from Cons.prems(1) x obtain m where m: "py_int (str (PyStr v)) = Inr m" "0 \<le> m" by auto
  from Cons.prems(1) have rest: "\<forall>(nm, v)\<in>set xs. \<exists>m. py_int v = Inr m \<and> 0 \<le> m" by simp
  let ?db = "setPlayerMaxHp chat (lower nm) (PyStr v) (setPlayerHp chat (lower nm) (PyStr v) db)"
  show ?case
  proof (cases "(q, u) \<in> set xs")
    case True
    then show ?thesis using Cons.IH [OF rest] by (simp add: x)
  next
    case False
    with Cons.prems(2) x have q: "q = nm" by simp
    have "hp_invariant chat (lower nm) ?db"
      by (rule set_both_establishes [OF m])
    then have "hp_invariant chat nm ?db"
      by (simp only: hp_invariant_same_key [OF hp_key_lower])
    then have "hp_invariant chat nm (setDefaultHps_loop chat xs ?db)"
      by (rule loop_preserves [OF rest])
    then show ?thesis by (simp add: x q)
  qed
qed


lemma hpCommand_DB_cases:
  assumes sp: "split text = cmd # p # opn # tok # rest"
    and ro: "p \<in> set (split (lower (order cfg)))"
    and tok: "py_int tok = Inr n"
  shows "DB (snd (hpCommand cfg chat text w)) = DB w
    \<or> ((opn = ''set'' \<or> opn = ''='') \<and>
        DB (snd (hpCommand cfg chat text w))
          = setPlayerMaxHp chat p (PyInt n) (setPlayerHp chat p (PyInt n) (DB w)))
    \<or> (\<exists>cur mx. (opn = ''add'' \<or> opn = ''+'') \<and> getPlayerHp chat p (DB w) = Inr cur
          \<and> getPlayerMaxHp chat p (DB w) = Inr mx
          \<and> DB (snd (hpCommand cfg chat text w))
              = setPlayerHp chat p (PyInt (min (cur + n) mx)) (DB w))
    \<or> (\<exists>cur. (opn = ''sub'' \<or> opn = ''-'') \<and> getPlayerHp chat p (DB w) = Inr cur
          \<and> DB (snd (hpCommand cfg chat text w))
              = setPlayerHp chat p (PyInt (max (cur - n) 0)) (DB w))"
  using ro tok
  by (auto simp: hpCommand_def Let_def hp_params [OF sp] int_param3_def DB_reply
      split: sum.splits)

lemma hpCommand_preserves:
  assumes sp: "split text = cmd # p # opn # tok # rest"
    and ro: "p \<in> set (split (lower (order cfg)))"
    and tok: "py_int tok = Inr n" and n0: "0 \<le> n"
    and inv: "hp_invariant c q (DB w)"
  shows "hp_invariant c q (DB (snd (hpCommand cfg chat text w)))"
proof -
  let ?db = "DB (snd (hpCommand cfg chat text w))"
  from hpCommand_DB_cases [OF sp ro tok, where chat=chat and w=w]
  consider (same) "?db = DB w"
    | (set) "?db = setPlayerMaxHp chat p (PyInt n) (setPlayerHp chat p (PyInt n) (DB w))"
    | (add) cur mx where "getPlayerHp chat p (DB w) = Inr cur"
        "getPlayerMaxHp chat p (DB w) = Inr mx"
        "?db = setPlayerHp chat p (PyInt (min (cur + n) mx)) (DB w)"
    | (sub) cur where "getPlayerHp chat p (DB w) = Inr cur"
        "?db = setPlayerHp chat p (PyInt (max (cur - n) 0)) (DB w)"
    by blast
  then show ?thesis
  proof cases
    case same
    with inv show ?thesis by simp
  next
    case set
    have "py_int (str (PyInt n)) = Inr n" by (simp add: py_int_str_int)
    from set_both_preserves [OF this n0 inv] set show ?thesis by simp
  next
    case (add cur mx)
    have "hp_invariant c q (setPlayerHp chat p (PyInt (min (cur + n) mx)) (DB w))"
    proof (rule set_hp_preserves [OF inv])
      fix cur' mx'
      assume "getPlayerHp chat p (DB w) = Inr cur'" "getPlayerMaxHp chat p (DB w) = Inr mx'"
        "0 \<le> cur'" "cur' \<le> mx'"
      with add(1,2) n0 show "0 \<le> min (cur + n) mx \<and> min (cur + n) mx \<le> mx'" by auto
    qed
    with add(3) show ?thesis by simp
  next
    case (sub cur)
    have "hp_invariant c q (setPlayerHp chat p (PyInt (max (cur - n) 0)) (DB w))"
    proof (rule set_hp_preserves [OF inv])
      fix cur' mx'
      assume "getPlayerHp chat p (DB w) = Inr cur'" "getPlayerMaxHp chat p (DB w) = Inr mx'"
        "0 \<le> cur'" "cur' \<le> mx'"
      with sub(1) n0 show "0 \<le> max (cur - n) 0 \<and> max (cur - n) 0 \<le> mx'" by auto
    qed
    with sub(2) show ?thesis by simp
  qed
qed

lemma setDefaults_DB:
  "DB (snd (setDefaults cfg chat w)) =
     setDefaultHps_loop chat (hp_defaults cfg) (setPlayerOrder chat (split (lower (order cfg))) (DB w))"
  by (simp add: setDefaults_def DB_reply setDefaultHps_def setDefaultPlayerOrder_def)

lemma hp_invariant_setPlayerOrder:
  "hp_invariant c q (setPlayerOrder c' names db) = hp_invariant c q db"
  by (simp only: hp_invariant_def getPlayerHp_setPlayerOrder)


text \<open>
  Claim C4, as amended. Let a \<open>/hp\<close> command name a roster player and carry an amount
  that reads as an integer \<open>n \<ge> 0\<close>. After \<open>set\<close> (or \<open>=\<close>) the player's hit points satisfy
  \<open>0 \<le> current \<le> max\<close>, and whatever the subcommand, every chat and player whose hit
  points satisfied the invariant before the command satisfy it after. If every
  configured default reads as an integer \<open>\<ge> 0\<close>, then after \<open>setDefaults\<close> every
  configured player satisfies the invariant, and so does every chat and player that
  satisfied it before.
\<close>

theorem hp_invariant_kept:
  "(split text = cmd # p # opn # tok # rest \<and> p \<in> set (split (lower (order cfg)))
      \<and> py_int tok = Inr n \<and> 0 \<le> n \<longrightarrow>
      (opn = ''set'' \<or> opn = ''='' \<longrightarrow>
         hp_invariant chat p (DB (snd (hpCommand cfg chat text w))))
      \<and> (\<forall>c q. hp_invariant c q (DB w) \<longrightarrow>
            hp_invariant c q (DB (snd (hpCommand cfg chat text w)))))
   \<and> ((\<forall>(nm, v)\<in>set (hp_defaults cfg). \<exists>m. py_int v = Inr m \<and> 0 \<le> m) \<longrightarrow>
      (\<forall>(nm, v)\<in>set (hp_defaults cfg).
         hp_invariant chat nm (DB (snd (setDefaults cfg chat w))))
      \<and> (\<forall>c q. hp_invariant c q (DB w) \<longrightarrow>
            hp_invariant c q (DB (snd (setDefaults cfg chat w)))))"
proof (intro conjI impI allI)
  assume h: "split text = cmd # p # opn # tok # rest \<and> p \<in> set (split (lower (order cfg)))
      \<and> py_int tok = Inr n \<and> 0 \<le> n"
  assume os: "opn = ''set'' \<or> opn = ''=''"
  from h have sp: "split text = cmd # p # opn # tok # rest"
    and ro: "p \<in> set (split (lower (order cfg)))"
    and tk: "py_int tok = Inr n" and n0: "0 \<le> n" by simp_all
  have "py_int (str (PyInt n)) = Inr n" by (simp add: py_int_str_int)
  from set_both_establishes [OF this n0]
  show "hp_invariant chat p (DB (snd (hpCommand cfg chat text w)))"
    by (simp add: hpCommand_set [OF sp ro os tk] DB_reply)
next
  fix c q
  assume h: "split text = cmd # p # opn # tok # rest \<and> p \<in> set (split (lower (order cfg)))
      \<and> py_int tok = Inr n \<and> 0 \<le> n"
  assume inv: "hp_invariant c q (DB w)"
  from h have sp: "split text = cmd # p # opn # tok # rest"
    and ro: "p \<in> set (split (lower (order cfg)))"
    and tk: "py_int tok = Inr n" and n0: "0 \<le> n" by simp_all
  show "hp_invariant c q (DB (snd (hpCommand cfg chat text w)))"
    by (rule hpCommand_preserves [OF sp ro tk n0 inv])
next
  assume g: "\<forall>(nm, v)\<in>set (hp_defaults cfg). \<exists>m. py_int v = Inr m \<and> 0 \<le> m"
  show "\<forall>(nm, v)\<in>set (hp_defaults cfg). hp_invariant chat nm (DB (snd (setDefaults cfg chat w)))"
    using loop_establishes [OF g] by (auto simp: setDefaults_DB)
next
  fix c q
  assume g: "\<forall>(nm, v)\<in>set (hp_defaults cfg). \<exists>m. py_int v = Inr m \<and> 0 \<le> m"
  assume "hp_invariant c q (DB w)"
  then have "hp_invariant c q (setPlayerOrder chat (split (lower (order cfg))) (DB w))"
    by (simp only: hp_invariant_setPlayerOrder)
  from loop_preserves [OF g this] show "hp_invariant c q (DB (snd (setDefaults cfg chat w)))"
    by (simp add: setDefaults_DB)
qed

theorem hp_invariant_kept_witness:
  "hp_invariant 1 ''alice'' (DB (snd (hpCommand demo_config 1 ''/hp alice set 20'' demo_world)))
   \<and> hp_invariant 1 ''alice''
       (DB (snd (hpCommand demo_config 1 ''/hp alice - 100''
                   (snd (hpCommand demo_config 1 ''/hp alice set 20'' demo_world)))))
   \<and> hp_invariant 1 ''bob'' (DB (snd (setDefaults demo_config 1 demo_world)))"
proof -
  let ?w = "snd (hpCommand demo_config 1 ''/hp alice set 20'' demo_world)"
  have sp1: "split ''/hp alice set 20'' = ''/hp'' # ''alice'' # ''set'' # ''20'' # []"
    and sp2: "split ''/hp alice - 100'' = ''/hp'' # ''alice'' # ''-'' # ''100'' # []"
    by (simp_all add: py_eval)
  have ro: "''alice'' \<in> set (split (lower (order demo_config)))"
    by (simp add: demo_roster)
  have t1: "py_int ''20'' = Inr 20" and t2: "py_int ''100'' = Inr 100"
    by (simp_all add: int_eval)
  have g: "\<forall>(nm, v)\<in>set (hp_defaults demo_config). \<exists>m. py_int v = Inr m \<and> 0 \<le> m"
    by (simp add: demo_config_def int_eval)
  have a: "hp_invariant 1 ''alice'' (DB ?w)"
    using hp_invariant_kept [of "''/hp alice set 20''" "''/hp''" "''alice''" "''set''" "''20''" "[]"
        demo_config 20 1 demo_world] sp1 ro t1
    by simp
  have b: "hp_invariant 1 ''alice'' (DB (snd (hpCommand demo_config 1 ''/hp alice - 100'' ?w)))"
    using hp_invariant_kept [of "''/hp alice - 100''" "''/hp''" "''alice''" "''-''" "''100''" "[]"
        demo_config 100 1 ?w] sp2 ro t2 a
    by simp
  have c: "hp_invariant 1 ''bob'' (DB (snd (setDefaults demo_config 1 demo_world)))"
    using hp_invariant_kept [of "''x''" "''x''" "''x''" "''x''" "''x''" "[]" demo_config 0 1 demo_world] g
    by (simp add: demo_config_def)
  from a b c show ?thesis by simp
qed

text \<open>The claim as stated covers every integer argument. \<open>set\<close> stores a negative
  amount as it is, for both current and maximal hit points.\<close>

theorem hp_set_negative_counterexample:
  "getPlayerHp 1 ''alice'' (DB (snd (hpCommand demo_config 1 ''/hp alice set -5'' demo_world)))
     = Inr (- 5)
   \<and> \<not> hp_invariant 1 ''alice''
         (DB (snd (hpCommand demo_config 1 ''/hp alice set -5'' demo_world)))"
proof -
  have sp: "split ''/hp alice set -5'' = ''/hp'' # ''alice'' # ''set'' # ''-5'' # []"
    by (simp add: py_eval)
  have ro: "''alice'' \<in> set (split (lower (order demo_config)))"
    by (simp add: demo_roster)
  have tok: "py_int ''-5'' = Inr (- 5)"
    by (simp add: int_eval)
  show ?thesis
    by (simp add: hpCommand_set [OF sp ro _ tok] DB_reply hp_invariant_def
        getPlayerHp_setPlayerHp getPlayerHp_setPlayerMaxHp getPlayerMaxHp_setPlayerMaxHp
        py_int_str_int)
qed


section \<open>Cards\<close>

lemma hp_missing_player: "hpCommand cfg chat ''/hp'' w = (Raised IndexError, w)"
  by (simp add: hpCommand_def py_eval)

lemma hp_missing_value:
  "split text = [cmd, p, opn] \<Longrightarrow> p \<in> set (split (lower (order cfg))) \<Longrightarrow>
   opn \<in> {''set'', ''='', ''add'', ''+'', ''sub'', ''-''} \<Longrightarrow>
   hpCommand cfg chat text w = (Raised IndexError, w)"
  by (auto simp: hpCommand_def Let_def subscript_def int_param3_def)

lemma cards_missing_fragment:
  "split text = [cmd, p, sc] \<Longrightarrow> p \<in> set (split (lower (order (CONFIG ev)))) \<Longrightarrow>
   sc \<in> {''show'', ''draw'', ''discard'', ''flip''} \<Longrightarrow>
   cardsCommand ev chat text w = (Raised IndexError, w)"
  by (auto simp: cardsCommand_def Let_def subscript_def)


lemma cards_params:
  assumes "split text = cmd # p # sc # frag # rest"
  shows "\<not> length (split text) < 2" and "\<not> length (split text) < 3"
  using assms by simp_all

lemma cardsCommand_draw:
  assumes sp: "split text = cmd # p # ''draw'' # frag # rest"
    and ro: "p \<in> set (split (lower (order (CONFIG ev))))"
    and cat: "CARDS ev p = Some catalog"
  shows "cardsCommand ev chat text w =
    (case filter (contains frag) catalog of
       [] \<Rightarrow> (Raised IndexError,
               reply chat ''{} Could not find in {}'' [ArgStr frag, ArgList catalog] w)
     | c # cs \<Rightarrow>
         (Returned,
          reply chat ''{} drew {}'' [ArgStr p, ArgStr c]
            (w\<lparr>DB := setPlayerCardStatus chat p c False (DB w)\<rparr>)))"
  using ro cat
  by (simp add: cardsCommand_def Let_def sp cards_of_def subscript_def split: list.splits)

lemma cardsCommand_discard:
  assumes sp: "split text = cmd # p # ''discard'' # frag # rest"
    and ro: "p \<in> set (split (lower (order (CONFIG ev))))"
  shows "cardsCommand ev chat text w =
    (case filter (contains frag) (getPlayerCards chat p None (DB w)) of
       [c] \<Rightarrow>
         (Returned,
          reply chat ''{} discarded {}'' [ArgStr p, ArgStr c]
            (w\<lparr>DB := removePlayerCardStatus chat p c (DB w)\<rparr>))
     | _ \<Rightarrow>
         (Returned,
          reply chat ''Could not find {} in {}'s hand {}''
            [ArgStr frag, ArgStr p, ArgList (getPlayerCards chat p None (DB w))] w))"
  using ro
  by (simp add: cardsCommand_def Let_def sp subscript_def split: list.splits)

lemma cardsCommand_flip:
  assumes sp: "split text = cmd # p # ''flip'' # frag # rest"
    and ro: "p \<in> set (split (lower (order (CONFIG ev))))"
  shows "cardsCommand ev chat text w =
    (case filter (contains frag) (getPlayerCards chat p (Some False) (DB w)) of
       c # cs \<Rightarrow>
         (Returned,
          reply chat ''{} flipped {}'' [ArgStr p, ArgStr c]
            (w\<lparr>DB := setPlayerCardStatus chat p c True (DB w)\<rparr>))
     | [] \<Rightarrow>
        (case filter (contains frag) (getPlayerCards chat p (Some True) (DB w)) of
           c # cs \<Rightarrow>
             (Returned,
              reply chat ''{} unflipped {}'' [ArgStr p, ArgStr c]
                (w\<lparr>DB := setPlayerCardStatus chat p c False (DB w)\<rparr>))
         | [] \<Rightarrow>
             (Returned,
              reply chat ''Could not find {} in {}'s hand {}''
                [ArgStr frag, ArgStr p, ArgList (getPlayerCards chat p None (DB w))] w)))"
  using ro
  by (simp add: cardsCommand_def Let_def sp subscript_def split: list.splits)


lemma between_has_prefix:
  fixes pre k :: string
  shows "pre \<le> k \<Longrightarrow> k \<le> pre @ s \<Longrightarrow> \<exists>t. k = pre @ t"
proof (induction pre arbitrary: k)
  case Nil
  then show ?case by simp
next
  case (Cons a pre)
  then obtain b k' where k: "k = b # k'" by (cases k) auto
  with Cons.prems have "a = b" "pre \<le> k'" "k' \<le> pre @ s" by auto
  with Cons.IH k show ?case by auto
qed

lemma removeprefix_append: "removeprefix pre (pre @ t) = t"
  by (simp add: removeprefix_def)

lemma card_key_prefix: "card_key c p x = key_prefix c p @ x"
  by (simp add: card_key_def key_prefix_def)

lemma same_prefix_le:
  fixes pre :: string
  shows "pre @ t \<le> pre @ s \<longleftrightarrow> t \<le> s"
  by (induction pre) auto

lemma getPlayerCards_Nil: "getPlayerCards c p f [] = []"
  by (simp add: getPlayerCards_def RangeIter_def)

lemma getPlayerCards_Cons:
  "getPlayerCards c p f (kv # db) =
     (if key_prefix c p \<le> fst kv \<and> fst kv \<le> key_prefix c p @ [CHR 0xAD]
         \<and> (f = None \<or> (f = Some True \<and> snd kv = ''1'') \<or> (f = Some False \<and> snd kv = ''0''))
      then removeprefix (key_prefix c p) (fst kv) # getPlayerCards c p f db
      else getPlayerCards c p f db)"
  by (simp add: getPlayerCards_def RangeIter_def)

lemma Delete_Cons:
  "Delete k (kv # db) = (if fst kv \<noteq> k then kv # Delete k db else Delete k db)"
  by (simp add: Delete_def)

lemma getPlayerCards_Delete:
  "getPlayerCards c p f (Delete (card_key c p x) db) = filter (\<lambda>t. t \<noteq> x) (getPlayerCards c p f db)"
proof (induction db)
  case Nil
  then show ?case by (simp add: getPlayerCards_Nil Delete_def)
next
  case (Cons kv db)
  let ?pre = "key_prefix c p"
  show ?case
  proof (cases "?pre \<le> fst kv \<and> fst kv \<le> ?pre @ [CHR 0xAD]")
    case True
    then obtain t where t: "fst kv = ?pre @ t" using between_has_prefix by blast
    with True Cons.IH show ?thesis
      by (auto simp: getPlayerCards_Cons Delete_Cons card_key_prefix removeprefix_append)
  next
    case False
    with Cons.IH show ?thesis
      by (auto simp: getPlayerCards_Cons Delete_Cons)
  qed
qed

lemma getPlayerCards_in_range:
  "x \<in> set (getPlayerCards c p f db) \<Longrightarrow> x \<le> [CHR 0xAD]"
proof -
  assume "x \<in> set (getPlayerCards c p f db)"
  then obtain kv :: "string \<times> string" where kv: "key_prefix c p \<le> fst kv" "fst kv \<le> key_prefix c p @ [CHR 0xAD]"
    and x: "x = removeprefix (key_prefix c p) (fst kv)"
    by (auto simp: getPlayerCards_def RangeIter_def)
  from kv obtain t where t: "fst kv = key_prefix c p @ t" using between_has_prefix by blast
  with x have "x = t" by (simp add: removeprefix_append)
  with kv(2) t show ?thesis by (simp add: same_prefix_le)
qed


lemma mem_getPlayerCards:
  "t \<in> set (getPlayerCards c p f db) \<longleftrightarrow>
     (\<exists>v. (card_key c p t, v) \<in> set db \<and> t \<le> [CHR 0xAD]
        \<and> (f = None \<or> (f = Some True \<and> v = ''1'') \<or> (f = Some False \<and> v = ''0'')))"
  (is "?L \<longleftrightarrow> ?R")
proof
  assume ?L
  then obtain kv :: "string \<times> string" where kv: "kv \<in> set db" "key_prefix c p \<le> fst kv"
      "fst kv \<le> key_prefix c p @ [CHR 0xAD]"
      "f = None \<or> (f = Some True \<and> snd kv = ''1'') \<or> (f = Some False \<and> snd kv = ''0'')"
    and t: "t = removeprefix (key_prefix c p) (fst kv)"
    by (auto simp: getPlayerCards_def RangeIter_def)
  from kv(2,3) obtain u where u: "fst kv = key_prefix c p @ u" using between_has_prefix by blast
  with t have tu: "t = u" by (simp add: removeprefix_append)
  have "kv = (card_key c p t, snd kv)"
    using u tu by (cases kv) (simp add: card_key_prefix)
  moreover have "t \<le> [CHR 0xAD]"
    using kv(3) u tu by (simp add: same_prefix_le)
  ultimately show ?R using kv(1,4) by metis
next
  assume ?R
  then obtain v where v: "(card_key c p t, v) \<in> set db" "t \<le> [CHR 0xAD]"
      "f = None \<or> (f = Some True \<and> v = ''1'') \<or> (f = Some False \<and> v = ''0'')"
    by blast
  have lo: "key_prefix c p \<le> card_key c p t"
    using same_prefix_le [of "key_prefix c p" "[]" t] by (simp add: card_key_prefix)
  have hi: "card_key c p t \<le> key_prefix c p @ [CHR 0xAD]"
    using v(2) by (simp add: card_key_prefix same_prefix_le)
  have "removeprefix (key_prefix c p) (card_key c p t) = t"
    by (simp add: card_key_prefix removeprefix_append)
  moreover have "(card_key c p t, v) \<in> set (filter
      (\<lambda>kv. f = None \<or> (f = Some True \<and> snd kv = ''1'') \<or> (f = Some False \<and> snd kv = ''0''))
      (RangeIter (key_prefix c p) (key_prefix c p @ [CHR 0xAD]) db))"
    using v(1,3) lo hi by (simp add: RangeIter_def)
  ultimately show ?L
    unfolding getPlayerCards_def by (metis (no_types, lifting) fst_conv image_eqI set_map)
qed

lemma set_Put: "set (Put k v db) = insert (k, v) {kv \<in> set db. fst kv \<noteq> k}"
  by (simp add: Put_def Delete_def set_insort_key)

lemma card_key_inj: "card_key c p t = card_key c p x \<longleftrightarrow> t = x"
  by (simp add: card_key_prefix)

lemma mem_getPlayerCards_setStatus:
  "t \<in> set (getPlayerCards c p f (setPlayerCardStatus c p x b db)) \<longleftrightarrow>
     (t = x \<and> x \<le> [CHR 0xAD] \<and> (f = None \<or> f = Some b))
     \<or> (t \<noteq> x \<and> t \<in> set (getPlayerCards c p f db))"
  by (auto simp: mem_getPlayerCards setPlayerCardStatus_def set_Put card_key_inj)


lemmas card_eval =
  getPlayerCards_def setPlayerCardStatus_def removePlayerCardStatus_def key_prefix_def
  card_key_def removeprefix_def store_defs py_eval

lemma demo_hand_cards:
  "getPlayerCards 1 ''alice'' None (DB demo_hand) = [''shield'', ''sword'']"
  "getPlayerCards 1 ''alice'' (Some False) (DB demo_hand) = [''sword'']"
  "getPlayerCards 1 ''alice'' (Some True) (DB demo_hand) = [''shield'']"
  by (simp_all add: demo_hand_def demo_world_def card_eval)

lemma demo_env_roster: "split (lower (order (CONFIG demo_env))) = [''alice'', ''bob'']"
  by (simp add: demo_env_def demo_roster)

text \<open>
  What \<open>discard\<close> does, in terms of the scan it reads. For a roster player and a
  fragment, \<open>discard\<close> looks at the player's listing (\<open>getPlayerCards\<close> with no flip
  filter). Unless exactly one listed card contains
  the fragment, the handler returns with the not-found reply that lists the scan, and
  the store is unchanged. With exactly one match it returns, deletes that card's
  status record and nothing else, the card is in no later listing of any filter, and a
  second discard of the same fragment returns with the not-found reply.
\<close>

theorem discard_exactly_one:
  assumes sp: "split text = cmd # p # ''discard'' # frag # rest"
    and ro: "p \<in> set (split (lower (order (CONFIG ev))))"
  shows "(length (filter (contains frag) (getPlayerCards chat p None (DB w))) \<noteq> 1 \<longrightarrow>
       cardsCommand ev chat text w =
         (Returned,
          reply chat ''Could not find {} in {}'s hand {}''
            [ArgStr frag, ArgStr p, ArgList (getPlayerCards chat p None (DB w))] w)
       \<and> DB (snd (cardsCommand ev chat text w)) = DB w)
    \<and> (\<forall>c. filter (contains frag) (getPlayerCards chat p None (DB w)) = [c] \<longrightarrow>
       cardsCommand ev chat text w =
         (Returned,
          reply chat ''{} discarded {}'' [ArgStr p, ArgStr c]
            (w\<lparr>DB := removePlayerCardStatus chat p c (DB w)\<rparr>))
       \<and> Get (DB (snd (cardsCommand ev chat text w))) (card_key chat p c) = Inl KeyError
       \<and> (\<forall>k. k \<noteq> card_key chat p c \<longrightarrow>
             Get (DB (snd (cardsCommand ev chat text w))) k = Get (DB w) k)
       \<and> (\<forall>f. getPlayerCards chat p f (DB (snd (cardsCommand ev chat text w)))
               = filter (\<lambda>t. t \<noteq> c) (getPlayerCards chat p f (DB w)))
       \<and> (\<forall>f. c \<notin> set (getPlayerCards chat p f (DB (snd (cardsCommand ev chat text w)))))
       \<and> cardsCommand ev chat text (snd (cardsCommand ev chat text w)) =
           (Returned,
            reply chat ''Could not find {} in {}'s hand {}''
              [ArgStr frag, ArgStr p,
               ArgList (getPlayerCards chat p None (DB (snd (cardsCommand ev chat text w))))]
              (snd (cardsCommand ev chat text w))))"
proof (intro conjI impI allI)
  assume n1: "length (filter (contains frag) (getPlayerCards chat p None (DB w))) \<noteq> 1"
  then show nf: "cardsCommand ev chat text w =
         (Returned,
          reply chat ''Could not find {} in {}'s hand {}''
            [ArgStr frag, ArgStr p, ArgList (getPlayerCards chat p None (DB w))] w)"
    by (auto simp: cardsCommand_discard [OF sp ro] split: list.splits)
  show "DB (snd (cardsCommand ev chat text w)) = DB w"
    by (simp add: nf DB_reply)
next
  fix c
  assume one: "filter (contains frag) (getPlayerCards chat p None (DB w)) = [c]"
  let ?w = "snd (cardsCommand ev chat text w)"
  show r: "cardsCommand ev chat text w =
         (Returned,
          reply chat ''{} discarded {}'' [ArgStr p, ArgStr c]
            (w\<lparr>DB := removePlayerCardStatus chat p c (DB w)\<rparr>))"
    by (simp add: cardsCommand_discard [OF sp ro] one)
  have db: "DB ?w = Delete (card_key chat p c) (DB w)"
    by (simp add: r DB_reply removePlayerCardStatus_def)
  show "Get (DB ?w) (card_key chat p c) = Inl KeyError"
    by (simp add: db Get_Delete)
  show "k \<noteq> card_key chat p c \<Longrightarrow> Get (DB ?w) k = Get (DB w) k" for k
    by (simp add: db Get_Delete)
  show l: "getPlayerCards chat p f (DB ?w) = filter (\<lambda>t. t \<noteq> c) (getPlayerCards chat p f (DB w))"
    for f
    by (simp add: db getPlayerCards_Delete)
  show "c \<notin> set (getPlayerCards chat p f (DB ?w))" for f
    by (simp add: l)
  have "filter (contains frag) (getPlayerCards chat p None (DB ?w))
      = filter (\<lambda>t. t \<noteq> c) (filter (contains frag) (getPlayerCards chat p None (DB w)))"
    by (simp add: l conj_commute)
  then have "filter (contains frag) (getPlayerCards chat p None (DB ?w)) = []"
    by (simp add: one)
  then show "cardsCommand ev chat text ?w =
           (Returned,
            reply chat ''Could not find {} in {}'s hand {}''
              [ArgStr frag, ArgStr p, ArgList (getPlayerCards chat p None (DB ?w))] ?w)"
    by (simp add: cardsCommand_discard [OF sp ro])
qed

theorem discard_exactly_one_witness:
  "cardsCommand demo_env 1 ''/cards alice discard s'' demo_hand =
     (Returned,
      reply 1 ''Could not find {} in {}'s hand {}''
        [ArgStr ''s'', ArgStr ''alice'', ArgList [''shield'', ''sword'']] demo_hand)
   \<and> getPlayerCards 1 ''alice'' None
       (DB (snd (cardsCommand demo_env 1 ''/cards alice discard sw'' demo_hand))) = [''shield'']
   \<and> cardsCommand demo_env 1 ''/cards alice discard sw''
       (snd (cardsCommand demo_env 1 ''/cards alice discard sw'' demo_hand)) =
     (Returned,
      reply 1 ''Could not find {} in {}'s hand {}''
        [ArgStr ''sw'', ArgStr ''alice'', ArgList [''shield'']]
        (snd (cardsCommand demo_env 1 ''/cards alice discard sw'' demo_hand)))"
proof -
  have sp1: "split ''/cards alice discard s'' = ''/cards'' # ''alice'' # ''discard'' # ''s'' # []"
    and sp2: "split ''/cards alice discard sw'' = ''/cards'' # ''alice'' # ''discard'' # ''sw'' # []"
    by (simp_all add: py_eval)
  have ro: "''alice'' \<in> set (split (lower (order (CONFIG demo_env))))"
    by (simp add: demo_env_roster)
  let ?w = "snd (cardsCommand demo_env 1 ''/cards alice discard sw'' demo_hand)"
  have two: "length (filter (contains ''s'') (getPlayerCards 1 ''alice'' None (DB demo_hand))) \<noteq> 1"
    and one: "filter (contains ''sw'') (getPlayerCards 1 ''alice'' None (DB demo_hand)) = [''sword'']"
    by (simp_all add: demo_hand_cards)
  from discard_exactly_one [OF sp1 ro, where chat=1 and w=demo_hand] two
  have a: "cardsCommand demo_env 1 ''/cards alice discard s'' demo_hand =
     (Returned,
      reply 1 ''Could not find {} in {}'s hand {}''
        [ArgStr ''s'', ArgStr ''alice'', ArgList (getPlayerCards 1 ''alice'' None (DB demo_hand))]
        demo_hand)"
    by blast
  from discard_exactly_one [OF sp2 ro, where chat=1 and w=demo_hand] one
  have b: "getPlayerCards 1 ''alice'' None (DB ?w)
        = filter (\<lambda>t. t \<noteq> ''sword'') (getPlayerCards 1 ''alice'' None (DB demo_hand))"
    and c: "cardsCommand demo_env 1 ''/cards alice discard sw'' ?w =
     (Returned,
      reply 1 ''Could not find {} in {}'s hand {}''
        [ArgStr ''sw'', ArgStr ''alice'', ArgList (getPlayerCards 1 ''alice'' None (DB ?w))] ?w)"
    by blast+
  from b have b': "getPlayerCards 1 ''alice'' None (DB ?w) = [''shield'']"
    by (simp add: demo_hand_cards)
  from a b' c show ?thesis
    by (simp only: demo_hand_cards)
qed


lemma Get_setPlayerCardStatus:
  "Get (setPlayerCardStatus c p x b db) k =
     (if k = card_key c p x then Inr (if b then ''1'' else ''0'') else Get db k)"
  by (simp add: setPlayerCardStatus_def Get_Put)

lemma hd_filter_listed:
  "filter P xs = c # cs \<Longrightarrow> c \<in> set xs"
proof -
  assume "filter P xs = c # cs"
  then have "c \<in> set (filter P xs)" by simp
  then show ?thesis by simp
qed

text \<open>
  What \<open>flip\<close> does, in terms of the scan it reads. For a roster player and a
  fragment, \<open>flip\<close> looks first at the cards listed as unflipped (\<open>getPlayerCards\<close> with
  the filter \<open>False\<close>): if one contains the fragment, the first such card is written with
  flipped = true and the reply says \<open>flipped\<close>; it is then listed as flipped and no
  longer as unflipped. Otherwise, if a card listed as flipped contains the fragment, the
  first such card is written with flipped = false and the reply says \<open>unflipped\<close>.
  Otherwise the handler replies not-found with the unfiltered listing and
  leaves the store as it is. In every case the handler returns.
\<close>

theorem flip_unflipped_first:
  assumes sp: "split text = cmd # p # ''flip'' # frag # rest"
    and ro: "p \<in> set (split (lower (order (CONFIG ev))))"
  shows "(\<forall>c cs. filter (contains frag) (getPlayerCards chat p (Some False) (DB w)) = c # cs \<longrightarrow>
       cardsCommand ev chat text w =
         (Returned,
          reply chat ''{} flipped {}'' [ArgStr p, ArgStr c]
            (w\<lparr>DB := setPlayerCardStatus chat p c True (DB w)\<rparr>))
       \<and> Get (DB (snd (cardsCommand ev chat text w))) (card_key chat p c) = Inr ''1''
       \<and> (\<forall>k. k \<noteq> card_key chat p c \<longrightarrow>
             Get (DB (snd (cardsCommand ev chat text w))) k = Get (DB w) k)
       \<and> c \<in> set (getPlayerCards chat p (Some True) (DB (snd (cardsCommand ev chat text w))))
       \<and> c \<notin> set (getPlayerCards chat p (Some False) (DB (snd (cardsCommand ev chat text w)))))
    \<and> (\<forall>c cs. filter (contains frag) (getPlayerCards chat p (Some False) (DB w)) = []
         \<and> filter (contains frag) (getPlayerCards chat p (Some True) (DB w)) = c # cs \<longrightarrow>
       cardsCommand ev chat text w =
         (Returned,
          reply chat ''{} unflipped {}'' [ArgStr p, ArgStr c]
            (w\<lparr>DB := setPlayerCardStatus chat p c False (DB w)\<rparr>))
       \<and> Get (DB (snd (cardsCommand ev chat text w))) (card_key chat p c) = Inr ''0''
       \<and> (\<forall>k. k \<noteq> card_key chat p c \<longrightarrow>
             Get (DB (snd (cardsCommand ev chat text w))) k = Get (DB w) k)
       \<and> c \<in> set (getPlayerCards chat p (Some False) (DB (snd (cardsCommand ev chat text w))))
       \<and> c \<notin> set (getPlayerCards chat p (Some True) (DB (snd (cardsCommand ev chat text w)))))
    \<and> (filter (contains frag) (getPlayerCards chat p (Some False) (DB w)) = []
         \<and> filter (contains frag) (getPlayerCards chat p (Some True) (DB w)) = [] \<longrightarrow>
       cardsCommand ev chat text w =
         (Returned,
          reply chat ''Could not find {} in {}'s hand {}''
            [ArgStr frag, ArgStr p, ArgList (getPlayerCards chat p None (DB w))] w))"
proof (intro conjI impI allI)
  fix c cs
  assume m: "filter (contains frag) (getPlayerCards chat p (Some False) (DB w)) = c # cs"
  let ?w = "snd (cardsCommand ev chat text w)"
  show r: "cardsCommand ev chat text w =
         (Returned,
          reply chat ''{} flipped {}'' [ArgStr p, ArgStr c]
            (w\<lparr>DB := setPlayerCardStatus chat p c True (DB w)\<rparr>))"
    by (simp add: cardsCommand_flip [OF sp ro] m)
  have db: "DB ?w = setPlayerCardStatus chat p c True (DB w)"
    by (simp add: r DB_reply)
  from m have "c \<in> set (getPlayerCards chat p (Some False) (DB w))"
    by (rule hd_filter_listed)
  then have le: "c \<le> [CHR 0xAD]" by (rule getPlayerCards_in_range)
  show "Get (DB ?w) (card_key chat p c) = Inr ''1''"
    by (simp add: db Get_setPlayerCardStatus)
  show "k \<noteq> card_key chat p c \<Longrightarrow> Get (DB ?w) k = Get (DB w) k" for k
    by (simp add: db Get_setPlayerCardStatus)
  show "c \<in> set (getPlayerCards chat p (Some True) (DB ?w))"
    using le by (simp add: db mem_getPlayerCards_setStatus)
  show "c \<notin> set (getPlayerCards chat p (Some False) (DB ?w))"
    by (simp add: db mem_getPlayerCards_setStatus)
next
  fix c cs
  assume "filter (contains frag) (getPlayerCards chat p (Some False) (DB w)) = []
         \<and> filter (contains frag) (getPlayerCards chat p (Some True) (DB w)) = c # cs"
  then have n: "filter (contains frag) (getPlayerCards chat p (Some False) (DB w)) = []"
    and m: "filter (contains frag) (getPlayerCards chat p (Some True) (DB w)) = c # cs"
    by simp_all
  let ?w = "snd (cardsCommand ev chat text w)"
  show r: "cardsCommand ev chat text w =
         (Returned,
          reply chat ''{} unflipped {}'' [ArgStr p, ArgStr c]
            (w\<lparr>DB := setPlayerCardStatus chat p c False (DB w)\<rparr>))"
    by (simp add: cardsCommand_flip [OF sp ro] n m)
  have db: "DB ?w = setPlayerCardStatus chat p c False (DB w)"
    by (simp add: r DB_reply)
  from m have "c \<in> set (getPlayerCards chat p (Some True) (DB w))"
    by (rule hd_filter_listed)
  then have le: "c \<le> [CHR 0xAD]" by (rule getPlayerCards_in_range)
  show "Get (DB ?w) (card_key chat p c) = Inr ''0''"
    by (simp add: db Get_setPlayerCardStatus)
  show "k \<noteq> card_key chat p c \<Longrightarrow> Get (DB ?w) k = Get (DB w) k" for k
    by (simp add: db Get_setPlayerCardStatus)
  show "c \<in> set (getPlayerCards chat p (Some False) (DB ?w))"
    using le by (simp add: db mem_getPlayerCards_setStatus)
  show "c \<notin> set (getPlayerCards chat p (Some True) (DB ?w))"
    by (simp add: db mem_getPlayerCards_setStatus)
next
  assume "filter (contains frag) (getPlayerCards chat p (Some False) (DB w)) = []
         \<and> filter (contains frag) (getPlayerCards chat p (Some True) (DB w)) = []"
  then show "cardsCommand ev chat text w =
         (Returned,
          reply chat ''Could not find {} in {}'s hand {}''
            [ArgStr frag, ArgStr p, ArgList (getPlayerCards chat p None (DB w))] w)"
    by (simp add: cardsCommand_flip [OF sp ro])
qed


theorem flip_unflipped_first_witness:
  "cardsCommand demo_env 1 ''/cards alice flip s'' demo_hand =
     (Returned,
      reply 1 ''{} flipped {}'' [ArgStr ''alice'', ArgStr ''sword'']
        (demo_hand\<lparr>DB := setPlayerCardStatus 1 ''alice'' ''sword'' True (DB demo_hand)\<rparr>))
   \<and> cardsCommand demo_env 1 ''/cards alice flip shi'' demo_hand =
     (Returned,
      reply 1 ''{} unflipped {}'' [ArgStr ''alice'', ArgStr ''shield'']
        (demo_hand\<lparr>DB := setPlayerCardStatus 1 ''alice'' ''shield'' False (DB demo_hand)\<rparr>))
   \<and> cardsCommand demo_env 1 ''/cards alice flip axe'' demo_hand =
     (Returned,
      reply 1 ''Could not find {} in {}'s hand {}''
        [ArgStr ''axe'', ArgStr ''alice'', ArgList [''shield'', ''sword'']] demo_hand)"
proof -
  have sp1: "split ''/cards alice flip s'' = ''/cards'' # ''alice'' # ''flip'' # ''s'' # []"
    and sp2: "split ''/cards alice flip shi'' = ''/cards'' # ''alice'' # ''flip'' # ''shi'' # []"
    and sp3: "split ''/cards alice flip axe'' = ''/cards'' # ''alice'' # ''flip'' # ''axe'' # []"
    by (simp_all add: py_eval)
  have ro: "''alice'' \<in> set (split (lower (order (CONFIG demo_env))))"
    by (simp add: demo_env_roster)
  have m1: "filter (contains ''s'') (getPlayerCards 1 ''alice'' (Some False) (DB demo_hand))
      = ''sword'' # []"
    and m2: "filter (contains ''shi'') (getPlayerCards 1 ''alice'' (Some False) (DB demo_hand)) = []
      \<and> filter (contains ''shi'') (getPlayerCards 1 ''alice'' (Some True) (DB demo_hand))
          = ''shield'' # []"
    and m3: "filter (contains ''axe'') (getPlayerCards 1 ''alice'' (Some False) (DB demo_hand)) = []
      \<and> filter (contains ''axe'') (getPlayerCards 1 ''alice'' (Some True) (DB demo_hand)) = []"
    by (simp_all add: demo_hand_cards)
  from flip_unflipped_first [OF sp1 ro, where chat=1 and w=demo_hand] m1
  have a: "cardsCommand demo_env 1 ''/cards alice flip s'' demo_hand =
     (Returned,
      reply 1 ''{} flipped {}'' [ArgStr ''alice'', ArgStr ''sword'']
        (demo_hand\<lparr>DB := setPlayerCardStatus 1 ''alice'' ''sword'' True (DB demo_hand)\<rparr>))"
    by blast
  from flip_unflipped_first [OF sp2 ro, where chat=1 and w=demo_hand] m2
  have b: "cardsCommand demo_env 1 ''/cards alice flip shi'' demo_hand =
     (Returned,
      reply 1 ''{} unflipped {}'' [ArgStr ''alice'', ArgStr ''shield'']
        (demo_hand\<lparr>DB := setPlayerCardStatus 1 ''alice'' ''shield'' False (DB demo_hand)\<rparr>))"
    by blast
  from flip_unflipped_first [OF sp3 ro, where chat=1 and w=demo_hand] m3
  have c: "cardsCommand demo_env 1 ''/cards alice flip axe'' demo_hand =
     (Returned,
      reply 1 ''Could not find {} in {}'s hand {}''
        [ArgStr ''axe'', ArgStr ''alice'', ArgList (getPlayerCards 1 ''alice'' None (DB demo_hand))]
        demo_hand)"
    by blast
  from a b c show ?thesis
    by (simp only: demo_hand_cards)
qed

text \<open>
  Claim C2, as amended. For a roster player with a catalog and a fragment: when no
  catalog card contains the fragment, \<open>draw\<close> sends the not-found reply that lists the
  catalog, and nothing else, and the store is unchanged; when at least one does, it
  returns, replies \<open>drew\<close>, and writes the status record of the first matching catalog
  entry, in catalog order, as unflipped, changing no other key.
\<close>

theorem draw_first_match:
  assumes sp: "split text = cmd # p # ''draw'' # frag # rest"
    and ro: "p \<in> set (split (lower (order (CONFIG ev))))"
    and cat: "CARDS ev p = Some catalog"
  shows "(filter (contains frag) catalog = [] \<longrightarrow>
       sent (snd (cardsCommand ev chat text w)) =
         sent w @ [send_message chat ''{} Could not find in {}'' [ArgStr frag, ArgList catalog]]
       \<and> DB (snd (cardsCommand ev chat text w)) = DB w)
    \<and> (\<forall>c cs. filter (contains frag) catalog = c # cs \<longrightarrow>
       cardsCommand ev chat text w =
         (Returned,
          reply chat ''{} drew {}'' [ArgStr p, ArgStr c]
            (w\<lparr>DB := setPlayerCardStatus chat p c False (DB w)\<rparr>))
       \<and> (\<exists>us vs. catalog = us @ c # vs \<and> (\<forall>u\<in>set us. \<not> contains frag u) \<and> contains frag c)
       \<and> Get (DB (snd (cardsCommand ev chat text w))) (card_key chat p c) = Inr ''0''
       \<and> (\<forall>k. k \<noteq> card_key chat p c \<longrightarrow>
             Get (DB (snd (cardsCommand ev chat text w))) k = Get (DB w) k))"
proof (intro conjI impI allI)
  assume n: "filter (contains frag) catalog = []"
  then have r: "cardsCommand ev chat text w =
      (Raised IndexError, reply chat ''{} Could not find in {}'' [ArgStr frag, ArgList catalog] w)"
    by (simp add: cardsCommand_draw [OF sp ro cat])
  show "sent (snd (cardsCommand ev chat text w)) =
         sent w @ [send_message chat ''{} Could not find in {}'' [ArgStr frag, ArgList catalog]]"
    by (simp add: r reply_def)
  show "DB (snd (cardsCommand ev chat text w)) = DB w"
    by (simp add: r DB_reply)
next
  fix c cs
  assume m: "filter (contains frag) catalog = c # cs"
  let ?w = "snd (cardsCommand ev chat text w)"
  show r: "cardsCommand ev chat text w =
         (Returned,
          reply chat ''{} drew {}'' [ArgStr p, ArgStr c]
            (w\<lparr>DB := setPlayerCardStatus chat p c False (DB w)\<rparr>))"
    by (simp add: cardsCommand_draw [OF sp ro cat] m)
  have db: "DB ?w = setPlayerCardStatus chat p c False (DB w)"
    by (simp add: r DB_reply)
  from m show "\<exists>us vs. catalog = us @ c # vs \<and> (\<forall>u\<in>set us. \<not> contains frag u) \<and> contains frag c"
    by (auto simp: filter_eq_Cons_iff)
  show "Get (DB ?w) (card_key chat p c) = Inr ''0''"
    by (simp add: db Get_setPlayerCardStatus)
  show "k \<noteq> card_key chat p c \<Longrightarrow> Get (DB ?w) k = Get (DB w) k" for k
    by (simp add: db Get_setPlayerCardStatus)
qed

lemma demo_catalog:
  "CARDS demo_env ''alice'' =
     Some [''sword'', ''shield'', ''swordfish'', [CHR 0xE9, CHR ''p'', CHR 0xE9, CHR ''e'']]"
  by (simp add: demo_env_def demo_cards_def)

theorem draw_first_match_witness:
  "cardsCommand demo_env 1 ''/cards alice draw sword'' demo_world =
     (Returned,
      reply 1 ''{} drew {}'' [ArgStr ''alice'', ArgStr ''sword'']
        (demo_world\<lparr>DB := setPlayerCardStatus 1 ''alice'' ''sword'' False (DB demo_world)\<rparr>))
   \<and> DB (snd (cardsCommand demo_env 1 ''/cards alice draw axe'' demo_world)) = DB demo_world"
proof -
  have sp1: "split ''/cards alice draw sword'' = ''/cards'' # ''alice'' # ''draw'' # ''sword'' # []"
    and sp2: "split ''/cards alice draw axe'' = ''/cards'' # ''alice'' # ''draw'' # ''axe'' # []"
    by (simp_all add: py_eval)
  have ro: "''alice'' \<in> set (split (lower (order (CONFIG demo_env))))"
    by (simp add: demo_env_roster)
  have m1: "filter (contains ''sword'')
        [''sword'', ''shield'', ''swordfish'', [CHR 0xE9, CHR ''p'', CHR 0xE9, CHR ''e'']]
      = ''sword'' # [''swordfish'']"
    and m2: "filter (contains ''axe'')
        [''sword'', ''shield'', ''swordfish'', [CHR 0xE9, CHR ''p'', CHR 0xE9, CHR ''e'']] = []"
    by simp_all
  from draw_first_match [OF sp1 ro demo_catalog, where chat=1 and w=demo_world] m1
  have a: "cardsCommand demo_env 1 ''/cards alice draw sword'' demo_world =
     (Returned,
      reply 1 ''{} drew {}'' [ArgStr ''alice'', ArgStr ''sword'']
        (demo_world\<lparr>DB := setPlayerCardStatus 1 ''alice'' ''sword'' False (DB demo_world)\<rparr>))"
    by blast
  from draw_first_match [OF sp2 ro demo_catalog, where chat=1 and w=demo_world] m2
  have b: "DB (snd (cardsCommand demo_env 1 ''/cards alice draw axe'' demo_world)) = DB demo_world"
    by blast
  from a b show ?thesis by (rule conjI)
qed

text \<open>The claim as stated has \<open>draw\<close> send nothing when no catalog card matches. The
  handler sends the not-found reply first.\<close>

theorem draw_no_match_counterexample:
  "filter (contains ''axe'')
     [''sword'', ''shield'', ''swordfish'', [CHR 0xE9, CHR ''p'', CHR 0xE9, CHR ''e'']] = []
   \<and> sent (snd (cardsCommand demo_env 1 ''/cards alice draw axe'' demo_world)) =
       [send_message 1 ''{} Could not find in {}''
          [ArgStr ''axe'',
           ArgList [''sword'', ''shield'', ''swordfish'',
                    [CHR 0xE9, CHR ''p'', CHR 0xE9, CHR ''e'']]]]"
proof -
  have sp: "split ''/cards alice draw axe'' = ''/cards'' # ''alice'' # ''draw'' # ''axe'' # []"
    by (simp add: py_eval)
  have ro: "''alice'' \<in> set (split (lower (order (CONFIG demo_env))))"
    by (simp add: demo_env_roster)
  show ?thesis
    by (simp add: cardsCommand_draw [OF sp ro demo_catalog] reply_def demo_world_def)
qed


text \<open>
  Claim C1 (evaluation where the code departs from it). A \<open>/hp\<close> message without a player
  name, \<open>/hp alice set\<close> without a value, and \<open>/cards alice show\<close>, \<open>draw\<close>, \<open>discard\<close>
  and \<open>flip\<close> without a fragment all raise IndexError in the handler, and no reply is
  sent.
\<close>

theorem missing_argument_raises:
  "hpCommand demo_config 1 ''/hp'' demo_world = (Raised IndexError, demo_world)
   \<and> hpCommand demo_config 1 ''/hp alice set'' demo_world = (Raised IndexError, demo_world)
   \<and> cardsCommand demo_env 1 ''/cards alice show'' demo_world = (Raised IndexError, demo_world)
   \<and> cardsCommand demo_env 1 ''/cards alice draw'' demo_world = (Raised IndexError, demo_world)
   \<and> cardsCommand demo_env 1 ''/cards alice discard'' demo_world = (Raised IndexError, demo_world)
   \<and> cardsCommand demo_env 1 ''/cards alice flip'' demo_world = (Raised IndexError, demo_world)"
proof -
  have sp: "split ''/hp alice set'' = [''/hp'', ''alice'', ''set'']"
    "split ''/cards alice show'' = [''/cards'', ''alice'', ''show'']"
    "split ''/cards alice draw'' = [''/cards'', ''alice'', ''draw'']"
    "split ''/cards alice discard'' = [''/cards'', ''alice'', ''discard'']"
    "split ''/cards alice flip'' = [''/cards'', ''alice'', ''flip'']"
    by (simp_all add: py_eval)
  have ro: "''alice'' \<in> set (split (lower (order demo_config)))"
    "''alice'' \<in> set (split (lower (order (CONFIG demo_env))))"
    by (simp_all add: demo_roster demo_env_roster)
  show ?thesis
    by (simp add: hp_missing_player hp_missing_value [OF sp(1) ro(1)]
        cards_missing_fragment [OF sp(2) ro(2)] cards_missing_fragment [OF sp(3) ro(2)]
        cards_missing_fragment [OF sp(4) ro(2)] cards_missing_fragment [OF sp(5) ro(2)])
qed

text \<open>
  Claim C7 (evaluation where the code departs from it). The upper bound of the scan
  ends in the character 0xad, not in the highest one. Alice draws the catalog card
  \<open>demo_epee\<close>, which starts with 0xe9: the handler returns and the card's status record
  is stored, but its key lies above the bound, so the in-hand listing is empty and a
  discard of that card does not find it.
\<close>

theorem high_card_not_listed:
  "fst (cardsCommand demo_env 1 (''/cards alice draw '' @ demo_epee) demo_world) = Returned
   \<and> Get (DB (snd (cardsCommand demo_env 1 (''/cards alice draw '' @ demo_epee) demo_world)))
        (card_key 1 ''alice'' demo_epee) = Inr ''0''
   \<and> getPlayerCards 1 ''alice'' None
        (DB (snd (cardsCommand demo_env 1 (''/cards alice draw '' @ demo_epee) demo_world))) = []
   \<and> cardsCommand demo_env 1 (''/cards alice discard '' @ demo_epee)
        (snd (cardsCommand demo_env 1 (''/cards alice draw '' @ demo_epee) demo_world)) =
      (Returned,
       reply 1 ''Could not find {} in {}'s hand {}''
         [ArgStr demo_epee, ArgStr ''alice'', ArgList []]
         (snd (cardsCommand demo_env 1 (''/cards alice draw '' @ demo_epee) demo_world)))"
proof -
  let ?w = "snd (cardsCommand demo_env 1 (''/cards alice draw '' @ demo_epee) demo_world)"
  have sp1: "split (''/cards alice draw '' @ demo_epee)
      = ''/cards'' # ''alice'' # ''draw'' # demo_epee # []"
    and sp2: "split (''/cards alice discard '' @ demo_epee)
      = ''/cards'' # ''alice'' # ''discard'' # demo_epee # []"
    by (simp_all add: demo_epee_def py_eval)
  have ro: "''alice'' \<in> set (split (lower (order (CONFIG demo_env))))"
    by (simp add: demo_env_roster)
  have m: "filter (contains demo_epee)
        [''sword'', ''shield'', ''swordfish'', [CHR 0xE9, CHR ''p'', CHR 0xE9, CHR ''e'']]
      = [demo_epee]"
    by (simp add: demo_epee_def)
  have r: "cardsCommand demo_env 1 (''/cards alice draw '' @ demo_epee) demo_world =
      (Returned,
       reply 1 ''{} drew {}'' [ArgStr ''alice'', ArgStr demo_epee]
         (demo_world\<lparr>DB := setPlayerCardStatus 1 ''alice'' demo_epee False (DB demo_world)\<rparr>))"
    by (simp only: cardsCommand_draw [OF sp1 ro demo_catalog] m list.case)
  have db: "DB ?w = setPlayerCardStatus 1 ''alice'' demo_epee False []"
    by (simp only: r snd_conv DB_reply) (simp add: demo_world_def)
  have high: "\<not> demo_epee \<le> [CHR 0xAD]"
    by (simp add: demo_epee_def)
  have "t \<notin> set (getPlayerCards 1 ''alice'' None
              (setPlayerCardStatus 1 ''alice'' demo_epee False []))" for t
    using high by (simp add: mem_getPlayerCards_setStatus getPlayerCards_Nil)
  then have "getPlayerCards 1 ''alice'' None (setPlayerCardStatus 1 ''alice'' demo_epee False []) = []"
    by (cases "getPlayerCards 1 ''alice'' None
                 (setPlayerCardStatus 1 ''alice'' demo_epee False [])") auto
  then have none: "getPlayerCards 1 ''alice'' None (DB ?w) = []"
    by (simp only: db)
  have d: "cardsCommand demo_env 1 (''/cards alice discard '' @ demo_epee) ?w =
      (Returned,
       reply 1 ''Could not find {} in {}'s hand {}''
         [ArgStr demo_epee, ArgStr ''alice'', ArgList []] ?w)"
    by (simp only: cardsCommand_discard [OF sp2 ro] none filter.simps list.case)
  have "Get (setPlayerCardStatus 1 ''alice'' demo_epee False []) (card_key 1 ''alice'' demo_epee)
      = Inr ''0''"
    by (simp add: Get_setPlayerCardStatus)
  then have g: "Get (DB ?w) (card_key 1 ''alice'' demo_epee) = Inr ''0''"
    by (simp only: db)
  have f: "fst (cardsCommand demo_env 1 (''/cards alice draw '' @ demo_epee) demo_world) = Returned"
    by (simp only: r fst_conv)
  from f g none d show ?thesis by (intro conjI)
qed


text \<open>
  The reach of the scan, exactly: a card whose status record was just written is in
  the player's unfiltered listing if and only if its identifier is at most the
  one-character string 0xad in the order of the store.
\<close>

theorem written_card_listed_iff:
  "x \<in> set (getPlayerCards c p None (setPlayerCardStatus c p x b db)) \<longleftrightarrow> x \<le> [CHR 0xAD]"
  by (simp add: mem_getPlayerCards_setStatus)


lemma split_acc_tokens:
  "\<forall>c\<in>set cur. \<not> is_space c \<Longrightarrow>
   \<forall>t\<in>set (split_acc cur s). t \<noteq> [] \<and> (\<forall>c\<in>set t. \<not> is_space c)"
proof (induction s arbitrary: cur)
  case Nil
  then show ?case by auto
next
  case (Cons a s)
  show ?case
  proof (cases "is_space a")
    case True
    have "\<forall>c\<in>set ([] :: string). \<not> is_space c" by simp
    from Cons.IH [OF this] Cons.prems True show ?thesis by auto
  next
    case False
    with Cons.prems have "\<forall>c\<in>set (cur @ [a]). \<not> is_space c" by auto
    from Cons.IH [OF this] False show ?thesis by simp
  qed
qed

lemma split_tokens: "\<forall>t\<in>set (split s). t \<noteq> [] \<and> (\<forall>c\<in>set t. \<not> is_space c)"
  unfolding split_def by (rule split_acc_tokens) simp

lemma drop_split_tokens:
  "\<forall>t\<in>set (drop k (split s)). t \<noteq> [] \<and> (\<forall>c\<in>set t. \<not> is_space c)"
  using split_tokens [of s] by (meson in_set_dropD)

text \<open>
  The lists the program passes to \<open>setPlayerOrder\<close> are outputs of \<open>split\<close>, whose
  tokens are non-empty and free of whitespace. So for every message \<open>setPlayerList\<close>
  stores the names after the command word and they read back as they are, with index
  0; and \<open>setDefaultPlayerOrder\<close> does the same with the configured order.
\<close>

theorem callers_order_roundtrip:
  "player_list_of chat (DB (snd (setPlayerList chat text w))) = Inr (drop 1 (split (lower text)))
   \<and> getCurrentPlayerId chat (DB (snd (setPlayerList chat text w))) = Inr 0
   \<and> player_list_of chat (setDefaultPlayerOrder cfg chat db) = Inr (split (lower (order cfg)))
   \<and> getCurrentPlayerId chat (setDefaultPlayerOrder cfg chat db) = Inr 0"
  by (simp add: setPlayerList_def DB_reply setDefaultPlayerOrder_def player_list_of_setPlayerOrder
      getCurrentPlayerId_setPlayerOrder split_join [OF drop_split_tokens] split_join [OF split_tokens])

lemma demo_draw_epee:
  "cardsCommand demo_env 1 (''/cards alice draw '' @ demo_epee) demo_world =
      (Returned,
       reply 1 ''{} drew {}'' [ArgStr ''alice'', ArgStr demo_epee]
         (demo_world\<lparr>DB := setPlayerCardStatus 1 ''alice'' demo_epee False (DB demo_world)\<rparr>))"
proof -
  have sp: "split (''/cards alice draw '' @ demo_epee)
      = ''/cards'' # ''alice'' # ''draw'' # demo_epee # []"
    by (simp add: demo_epee_def py_eval)
  have ro: "''alice'' \<in> set (split (lower (order (CONFIG demo_env))))"
    by (simp add: demo_env_roster)
  have m: "filter (contains demo_epee)
        [''sword'', ''shield'', ''swordfish'', [CHR 0xE9, CHR ''p'', CHR 0xE9, CHR ''e'']]
      = [demo_epee]"
    by (simp add: demo_epee_def)
  show ?thesis
    by (simp only: cardsCommand_draw [OF sp ro demo_catalog] m list.case)
qed

lemma demo_draw_epee_DB:
  "DB (snd (cardsCommand demo_env 1 (''/cards alice draw '' @ demo_epee) demo_world))
     = setPlayerCardStatus 1 ''alice'' demo_epee False []"
  by (simp only: demo_draw_epee snd_conv DB_reply) (simp add: demo_world_def)

lemma demo_epee_high: "\<not> demo_epee \<le> [CHR 0xAD]"
  by (simp add: demo_epee_def)

lemma demo_epee_unlisted:
  "getPlayerCards 1 ''alice'' f
     (DB (snd (cardsCommand demo_env 1 (''/cards alice draw '' @ demo_epee) demo_world))) = []"
proof -
  let ?db = "setPlayerCardStatus 1 ''alice'' demo_epee False []"
  have "t \<notin> set (getPlayerCards 1 ''alice'' f ?db)" for t
    using demo_epee_high by (simp add: mem_getPlayerCards_setStatus getPlayerCards_Nil)
  then have "getPlayerCards 1 ''alice'' f ?db = []"
    by (cases "getPlayerCards 1 ''alice'' f ?db") auto
  then show ?thesis by (simp only: demo_draw_epee_DB)
qed

lemma demo_epee_stored:
  "Get (DB (snd (cardsCommand demo_env 1 (''/cards alice draw '' @ demo_epee) demo_world)))
     (card_key 1 ''alice'' demo_epee) = Inr ''0''"
proof -
  have "Get (setPlayerCardStatus 1 ''alice'' demo_epee False []) (card_key 1 ''alice'' demo_epee)
      = Inr ''0''"
    by (simp add: Get_setPlayerCardStatus)
  then show ?thesis by (simp only: demo_draw_epee_DB)
qed

lemma contains_self: "contains s s"
  by (cases s) simp_all

text \<open>
  Claim C6 (evaluation where the code departs from it). After alice has drawn the card
  \<open>demo_epee\<close>, its status record exists, so the card is in her hand, and it is the one
  in-hand card that contains the fragment \<open>demo_epee\<close>. Yet \<open>discard\<close> with that fragment
  replies not-found with an empty hand, and the record is still there afterwards: the
  handler looks for the card in the scan of \<open>getPlayerCards\<close>, whose upper bound the
  card's key exceeds.
\<close>

theorem discard_misses_high_card:
  "Get (DB (snd (cardsCommand demo_env 1 (''/cards alice draw '' @ demo_epee) demo_world)))
     (card_key 1 ''alice'' demo_epee) = Inr ''0''
   \<and> contains demo_epee demo_epee
   \<and> cardsCommand demo_env 1 (''/cards alice discard '' @ demo_epee)
        (snd (cardsCommand demo_env 1 (''/cards alice draw '' @ demo_epee) demo_world)) =
      (Returned,
       reply 1 ''Could not find {} in {}'s hand {}''
         [ArgStr demo_epee, ArgStr ''alice'', ArgList []]
         (snd (cardsCommand demo_env 1 (''/cards alice draw '' @ demo_epee) demo_world)))
   \<and> Get (DB (snd (cardsCommand demo_env 1 (''/cards alice discard '' @ demo_epee)
                 (snd (cardsCommand demo_env 1 (''/cards alice draw '' @ demo_epee) demo_world)))))
     (card_key 1 ''alice'' demo_epee) = Inr ''0''"
proof -
  let ?w = "snd (cardsCommand demo_env 1 (''/cards alice draw '' @ demo_epee) demo_world)"
  have sp: "split (''/cards alice discard '' @ demo_epee)
      = ''/cards'' # ''alice'' # ''discard'' # demo_epee # []"
    by (simp add: demo_epee_def py_eval)
  have ro: "''alice'' \<in> set (split (lower (order (CONFIG demo_env))))"
    by (simp add: demo_env_roster)
  have d: "cardsCommand demo_env 1 (''/cards alice discard '' @ demo_epee) ?w =
      (Returned,
       reply 1 ''Could not find {} in {}'s hand {}''
         [ArgStr demo_epee, ArgStr ''alice'', ArgList []] ?w)"
    by (simp only: cardsCommand_discard [OF sp ro] demo_epee_unlisted filter.simps list.case)
  have after: "Get (DB (snd (cardsCommand demo_env 1 (''/cards alice discard '' @ demo_epee) ?w)))
      (card_key 1 ''alice'' demo_epee) = Inr ''0''"
    by (simp only: d snd_conv DB_reply demo_epee_stored)
  from demo_epee_stored contains_self d after show ?thesis by (intro conjI)
qed

text \<open>
  Claim C9 (evaluation where the code departs from it). After alice has drawn the card
  \<open>demo_epee\<close>, it is in her hand and unflipped. Yet \<open>flip\<close> with that fragment replies
  not-found with an empty hand and the record still reads unflipped afterwards: both
  searches run over the scan of \<open>getPlayerCards\<close>, whose upper bound the card's key
  exceeds.
\<close>

theorem flip_misses_high_card:
  "Get (DB (snd (cardsCommand demo_env 1 (''/cards alice draw '' @ demo_epee) demo_world)))
     (card_key 1 ''alice'' demo_epee) = Inr ''0''
   \<and> contains demo_epee demo_epee
   \<and> cardsCommand demo_env 1 (''/cards alice flip '' @ demo_epee)
        (snd (cardsCommand demo_env 1 (''/cards alice draw '' @ demo_epee) demo_world)) =
      (Returned,
       reply 1 ''Could not find {} in {}'s hand {}''
         [ArgStr demo_epee, ArgStr ''alice'', ArgList []]
         (snd (cardsCommand demo_env 1 (''/cards alice draw '' @ demo_epee) demo_world)))
   \<and> Get (DB (snd (cardsCommand demo_env 1 (''/cards alice flip '' @ demo_epee)
                 (snd (cardsCommand demo_env 1 (''/cards alice draw '' @ demo_epee) demo_world)))))
     (card_key 1 ''alice'' demo_epee) = Inr ''0''"
proof -
  let ?w = "snd (cardsCommand demo_env 1 (''/cards alice draw '' @ demo_epee) demo_world)"
  have sp: "split (''/cards alice flip '' @ demo_epee)
      = ''/cards'' # ''alice'' # ''flip'' # demo_epee # []"
    by (simp add: demo_epee_def py_eval)
  have ro: "''alice'' \<in> set (split (lower (order (CONFIG demo_env))))"
    by (simp add: demo_env_roster)
  have d: "cardsCommand demo_env 1 (''/cards alice flip '' @ demo_epee) ?w =
      (Returned,
       reply 1 ''Could not find {} in {}'s hand {}''
         [ArgStr demo_epee, ArgStr ''alice'', ArgList []] ?w)"
    by (simp only: cardsCommand_flip [OF sp ro] demo_epee_unlisted filter.simps list.case)
  have after: "Get (DB (snd (cardsCommand demo_env 1 (''/cards alice flip '' @ demo_epee) ?w)))
      (card_key 1 ''alice'' demo_epee) = Inr ''0''"
    by (simp only: d snd_conv DB_reply demo_epee_stored)
  from demo_epee_stored contains_self d after show ?thesis by (intro conjI)
qed


lemma demo_bobs_roster: "split (lower (order (CONFIG demo_bobs))) = [''bob'', ''bob_jr'']"
  by (simp add: demo_bobs_def demo_config_def py_eval)

lemma card_key_shared: "card_key 1 ''bob'' ''jr_axe'' = card_key 1 ''bob_jr'' ''axe''"
  by (simp add: card_key_def)

lemma demo_bobs_draw:
  "cardsCommand demo_bobs 1 ''/cards bob_jr draw axe'' demo_world =
     (Returned,
      reply 1 ''{} drew {}'' [ArgStr ''bob_jr'', ArgStr ''axe'']
        (demo_world\<lparr>DB := setPlayerCardStatus 1 ''bob_jr'' ''axe'' False (DB demo_world)\<rparr>))"
proof -
  have sp: "split ''/cards bob_jr draw axe'' = ''/cards'' # ''bob_jr'' # ''draw'' # ''axe'' # []"
    by (simp add: py_eval)
  have ro: "''bob_jr'' \<in> set (split (lower (order (CONFIG demo_bobs))))"
    by (simp add: demo_bobs_roster)
  have cat: "CARDS demo_bobs ''bob_jr'' = Some [''axe'']"
    by (simp add: demo_bobs_def)
  show ?thesis
    by (simp add: cardsCommand_draw [OF sp ro cat])
qed

lemma demo_bobs_listing:
  "getPlayerCards 1 ''bob'' None (setPlayerCardStatus 1 ''bob_jr'' ''axe'' False []) = [''jr_axe'']"
  by (simp add: card_eval)

text \<open>
  The key of a card joins chat, player and card with underscores, and a player's scan
  takes every key that starts with the player's prefix. With the players \<open>bob\<close> and
  \<open>bob_jr\<close> in the roster, the card \<open>axe\<close> drawn by \<open>bob_jr\<close> is listed in the hand of
  \<open>bob\<close> as \<open>jr_axe\<close>, and \<open>/cards bob discard axe\<close> deletes the record of \<open>bob_jr\<close>.
\<close>

theorem shared_prefix_discard:
  "Get (DB (snd (cardsCommand demo_bobs 1 ''/cards bob_jr draw axe'' demo_world)))
     (card_key 1 ''bob_jr'' ''axe'') = Inr ''0''
   \<and> getPlayerCards 1 ''bob'' None
       (DB (snd (cardsCommand demo_bobs 1 ''/cards bob_jr draw axe'' demo_world))) = [''jr_axe'']
   \<and> fst (cardsCommand demo_bobs 1 ''/cards bob discard axe''
            (snd (cardsCommand demo_bobs 1 ''/cards bob_jr draw axe'' demo_world))) = Returned
   \<and> Get (DB (snd (cardsCommand demo_bobs 1 ''/cards bob discard axe''
                 (snd (cardsCommand demo_bobs 1 ''/cards bob_jr draw axe'' demo_world)))))
       (card_key 1 ''bob_jr'' ''axe'') = Inl KeyError"
proof -
  let ?w = "snd (cardsCommand demo_bobs 1 ''/cards bob_jr draw axe'' demo_world)"
  have db: "DB ?w = setPlayerCardStatus 1 ''bob_jr'' ''axe'' False []"
    by (simp only: demo_bobs_draw snd_conv DB_reply) (simp add: demo_world_def)
  have g: "Get (DB ?w) (card_key 1 ''bob_jr'' ''axe'') = Inr ''0''"
    by (simp add: db Get_setPlayerCardStatus)
  have l: "getPlayerCards 1 ''bob'' None (DB ?w) = [''jr_axe'']"
    by (simp only: db demo_bobs_listing)
  have sp: "split ''/cards bob discard axe'' = ''/cards'' # ''bob'' # ''discard'' # ''axe'' # []"
    by (simp add: py_eval)
  have ro: "''bob'' \<in> set (split (lower (order (CONFIG demo_bobs))))"
    by (simp add: demo_bobs_roster)
  have m: "filter (contains ''axe'') [''jr_axe''] = [''jr_axe'']"
    by simp
  have d: "cardsCommand demo_bobs 1 ''/cards bob discard axe'' ?w =
      (Returned,
       reply 1 ''{} discarded {}'' [ArgStr ''bob'', ArgStr ''jr_axe'']
         (?w\<lparr>DB := removePlayerCardStatus 1 ''bob'' ''jr_axe'' (DB ?w)\<rparr>))"
    by (simp only: cardsCommand_discard [OF sp ro] l m list.case)
  have gone: "Get (DB (snd (cardsCommand demo_bobs 1 ''/cards bob discard axe'' ?w)))
      (card_key 1 ''bob_jr'' ''axe'') = Inl KeyError"
    by (simp add: d DB_reply removePlayerCardStatus_def card_key_shared Get_Delete)
  have f: "fst (cardsCommand demo_bobs 1 ''/cards bob discard axe'' ?w) = Returned"
    by (simp only: d fst_conv)
  from g l f gone show ?thesis by (intro conjI)
qed


end
